theory Spec2Isabelle
  imports Main "HOL-Library.Multiset"
begin

section \<open>JavaScript values used by the review pipeline\<close>

text \<open>
  A JavaScript string is a \<open>string\<close> (a list of 8-bit characters). ASCII text is one
  character per element; the emoji literals of the sources, which are only copied and
  concatenated, are written as the bytes of their UTF-8 encoding, exactly as they stand
  in the source files. Case conversion and the regular-expression classes are modelled
  on the ASCII range; bytes from 0x80 upward are left alone by \<open>toLowerCase\<close>, are
  neither word, digit nor white-space characters, and are matched by \<open>.\<close>.

  An optional property of an object (\<open>issue.tags\<close>, \<open>issue.ruleId\<close>, ...) is an
  \<open>option\<close>; \<open>None\<close> is \<open>undefined\<close>. A string is truthy when it is present
  and not empty.
\<close>

fun truthy :: "string option \<Rightarrow> bool" where
  "truthy None = False"
| "truthy (Some s) = (s \<noteq> [])"

text \<open>\<open>s.startsWith(p)\<close>, \<open>s.endsWith(p)\<close> and \<open>s.includes(p)\<close>.\<close>

fun startsWith :: "string \<Rightarrow> string \<Rightarrow> bool" where
  "startsWith s [] = True"
| "startsWith [] (p # ps) = False"
| "startsWith (c # cs) (p # ps) = (c = p \<and> startsWith cs ps)"

definition endsWith :: "string \<Rightarrow> string \<Rightarrow> bool" where
  "endsWith s p = startsWith (rev s) (rev p)"

fun str_includes :: "string \<Rightarrow> string \<Rightarrow> bool" where
  "str_includes [] p = (p = [])"
| "str_includes (c # cs) p = (startsWith (c # cs) p \<or> str_includes cs p)"

text \<open>\<open>Array.prototype.includes\<close> on an array of strings.\<close>

definition arr_includes :: "string list \<Rightarrow> string \<Rightarrow> bool" where
  "arr_includes xs x = (x \<in> set xs)"

text \<open>
  A JavaScript number that the scorer can produce: an integer, or \<open>NaN\<close> (the quotient
  \<open>0 / 0\<close>). Arithmetic with \<open>NaN\<close> gives \<open>NaN\<close>, and so do \<open>Math.max\<close> and
  \<open>Math.min\<close>.
\<close>

datatype jsnum = Num int | NaN

fun num_add :: "jsnum \<Rightarrow> jsnum \<Rightarrow> jsnum" where
  "num_add (Num a) (Num b) = Num (a + b)"
| "num_add _ _ = NaN"

fun num_max :: "jsnum \<Rightarrow> jsnum \<Rightarrow> jsnum" where
  "num_max (Num a) (Num b) = Num (max a b)"
| "num_max _ _ = NaN"

fun num_min :: "jsnum \<Rightarrow> jsnum \<Rightarrow> jsnum" where
  "num_min (Num a) (Num b) = Num (min a b)"
| "num_min _ _ = NaN"

section \<open>Issues and the scoring context\<close>

text \<open>
  The object a detector builds for one line, with every property the scorer and the
  categorizer read. No detector sets \<open>pattern\<close>; the scorer tests it all the same.
\<close>

record issue =
  message :: string
  suggestion :: "string option"
  ruleId :: "string option"
  tags :: "string list option"
  matchType :: "string option"
  source :: "string option"
  language :: "string option"
  pattern :: "string option"
  severity :: "string option"
  confidence :: "jsnum option"

text \<open>The \<open>context\<close> object that \<open>analyzeLine\<close> hands to the scorer.\<close>

record score_context =
  ctx_filename :: string
  ctx_language :: string
  ctx_lineNumber :: int
  ctx_isTestFile :: bool
  ctx_isConfigFile :: bool
  ctx_isMigrationFile :: bool
  ctx_fileType :: string

text \<open>\<open>issue.tags?.includes(t)\<close> and \<open>issue.tags?.some(tag => table.includes(tag))\<close>.\<close>

definition tags_include :: "issue \<Rightarrow> string \<Rightarrow> bool" where
  "tags_include i t = (case tags i of None \<Rightarrow> False | Some ts \<Rightarrow> arr_includes ts t)"

definition tags_some :: "issue \<Rightarrow> string list \<Rightarrow> bool" where
  "tags_some i table = (case tags i of None \<Rightarrow> False | Some ts \<Rightarrow> list_ex (arr_includes table) ts)"

section \<open>ConfidenceScorer\<close>

definition scorePatternMatch :: "issue \<Rightarrow> int" where
  "scorePatternMatch i =
     (if \<not> truthy (pattern i) then 15
      else if tags_include i ''security'' then 30
      else if matchType i = Some ''exact'' \<or> matchType i = Some ''ast'' then 25
      else if matchType i = Some ''regex'' then 20
      else if matchType i = Some ''keyword'' then 10
      else 15)"

definition scoreContext :: "issue \<Rightarrow> score_context \<Rightarrow> int" where
  "scoreContext i c =
     (if ctx_isTestFile c \<and> tags_include i ''production-only'' then 0
      else if (ctx_isTestFile c \<or> str_includes (ctx_filename c) ''debug'') \<and> ruleId i = Some ''no-console'' then 5
      else if ctx_isConfigFile c \<and> ruleId i = Some ''magic-numbers'' then 0
      else if ctx_isMigrationFile c \<and> tags_include i ''raw-sql'' then 5
      else if truthy (language i) \<and> language i = Some (ctx_language c) then 30
      else if \<not> truthy (language i) then 20
      else 10)"

definition scoreRuleType :: "issue \<Rightarrow> int" where
  "scoreRuleType i =
     (if source i = Some ''custom'' then 20
      else if truthy (language i) then 15
      else if tags_include i ''security'' then 18
      else 10)"

text \<open>
  The rule history \<open>this.ruleHistory\<close>: a \<open>Map\<close> from rule identifiers to the two
  counters. The counters only ever grow by one, so they are natural numbers.
\<close>

record history =
  correct :: nat
  falsePositive :: nat

type_synonym rule_history = "string \<rightharpoonup> history"

definition highAccuracyRules :: "string list" where
  "highAccuracyRules =
     [''sql-injection'', ''xss-vulnerability'', ''hardcoded-secrets'', ''null-reference'',
      ''undefined-variable'']"

definition mediumAccuracyRules :: "string list" where
  "mediumAccuracyRules = [''function-length'', ''complexity'', ''no-console'', ''no-var'']"

text \<open>
  \<open>Math.floor((correct / (correct + falsePositive)) * 20)\<close>. The quotient \<open>0 / 0\<close> is
  \<open>NaN\<close> and stays \<open>NaN\<close>; otherwise the source computes on doubles what is computed
  here exactly. The two agree for all counters a process can reach: a quotient that is
  a multiple of 1/20 is multiplied back to the integer, and any other quotient is at
  least \<open>1 / (correct + falsePositive)\<close> away from the next integer multiple.
\<close>

definition accuracy_score :: "history \<Rightarrow> jsnum" where
  "accuracy_score e =
     (if correct e + falsePositive e = 0 then NaN
      else Num (int ((20 * correct e) div (correct e + falsePositive e))))"

definition scoreHistory :: "rule_history \<Rightarrow> string option \<Rightarrow> jsnum" where
  "scoreHistory h rid =
     (case rid of
        None \<Rightarrow> Num 10
      | Some r \<Rightarrow>
          if r = [] then Num 10
          else (case h r of
                  Some e \<Rightarrow> accuracy_score e
                | None \<Rightarrow>
                    if arr_includes highAccuracyRules r then Num 18
                    else if arr_includes mediumAccuracyRules r then Num 14
                    else Num 10))"

definition calculateConfidence :: "rule_history \<Rightarrow> issue \<Rightarrow> score_context \<Rightarrow> jsnum" where
  "calculateConfidence h i c =
     (let score = Num 0;
          score = num_add score (Num (scorePatternMatch i));
          score = num_add score (Num (scoreContext i c));
          score = num_add score (Num (scoreRuleType i));
          score = num_add score (scoreHistory h (ruleId i))
      in num_min (Num 100) (num_max (Num 0) score))"

text \<open>
  \<open>recordFeedback\<close> creates the entry when it is missing and increments one of its
  counters in the same call. The updated store is returned.
\<close>

definition recordFeedback :: "rule_history \<Rightarrow> string \<Rightarrow> bool \<Rightarrow> rule_history" where
  "recordFeedback h rid wasCorrect =
     (let h1 = (if h rid = None then h(rid \<mapsto> \<lparr>correct = 0, falsePositive = 0\<rparr>) else h);
          e = the (h1 rid)
      in if wasCorrect then h1(rid \<mapsto> e\<lparr>correct := correct e + 1\<rparr>)
         else h1(rid \<mapsto> e\<lparr>falsePositive := falsePositive e + 1\<rparr>))"

text \<open>
  The constructor starts with an empty \<open>Map\<close>; every later store is the result of a
  sequence of \<open>recordFeedback\<close> calls, given here as the list of their arguments.
\<close>

definition new_history :: rule_history where
  "new_history = Map.empty"

fun feedback_run :: "rule_history \<Rightarrow> (string \<times> bool) list \<Rightarrow> rule_history" where
  "feedback_run h [] = h"
| "feedback_run h ((rid, w) # fs) = feedback_run (recordFeedback h rid w) fs"

section \<open>IssueCategorizer\<close>

record cat_info =
  category :: string
  cat_severity :: string
  emoji :: string
  sortOrder :: int

text \<open>The three category emoji (red, yellow and blue circle), as UTF-8 bytes.\<close>

definition emoji_red :: string where
  "emoji_red = [CHR 0xF0, CHR 0x9F, CHR 0x94, CHR 0xB4]"

definition emoji_yellow :: string where
  "emoji_yellow = [CHR 0xF0, CHR 0x9F, CHR 0x9F, CHR 0xA1]"

definition emoji_blue :: string where
  "emoji_blue = [CHR 0xF0, CHR 0x9F, CHR 0x94, CHR 0xB5]"

definition bugTags :: "string list" where
  "bugTags =
     [''security'', ''vulnerability'', ''injection'', ''xss'', ''csrf'', ''logic-error'',
      ''null-reference'', ''undefined'', ''crash'', ''exception'', ''error'',
      ''race-condition'', ''deadlock'', ''leak'', ''memory-leak'', ''resource-leak'',
      ''type-error'', ''incorrect-operator'', ''wrong-comparison'']"

definition bugRuleIds :: "string list" where
  "bugRuleIds =
     [''sql-injection'', ''xss-vulnerability'', ''hardcoded-secrets'', ''insecure-random'',
      ''path-traversal'', ''command-injection'', ''xxe-vulnerability'']"

definition refactorTags :: "string list" where
  "refactorTags =
     [''complexity'', ''duplication'', ''dry-violation'', ''performance'', ''n+1-query'',
      ''inefficient-algorithm'', ''maintainability'', ''naming'', ''unclear-code'',
      ''documentation'', ''missing-docs'', ''coverage'', ''missing-tests'',
      ''design-pattern'', ''coupling'', ''cohesion'']"

definition refactorRuleIds :: "string list" where
  "refactorRuleIds =
     [''function-length'', ''function-complexity'', ''code-duplication'', ''nested-loops'',
      ''missing-error-handling'', ''unused-variable'', ''unused-import'']"

text \<open>\<open>table.includes(issue.ruleId)\<close>: an absent \<open>ruleId\<close> is in no table.\<close>

definition ruleId_in :: "string list \<Rightarrow> issue \<Rightarrow> bool" where
  "ruleId_in table i = (case ruleId i of None \<Rightarrow> False | Some r \<Rightarrow> arr_includes table r)"

definition isBug :: "issue \<Rightarrow> bool" where
  "isBug i = (if tags_some i bugTags then True
              else if ruleId_in bugRuleIds i then True
              else False)"

definition isRefactor :: "issue \<Rightarrow> bool" where
  "isRefactor i = (if tags_some i refactorTags then True
                   else if ruleId_in refactorRuleIds i then True
                   else False)"

definition getBugSeverity :: "issue \<Rightarrow> string" where
  "getBugSeverity i =
     (if tags_include i ''security'' \<or> tags_include i ''vulnerability'' then ''critical''
      else if tags_some i [''crash'', ''exception'', ''logic-error'', ''null-reference''] then ''high''
      else ''medium'')"

definition getRefactorSeverity :: "issue \<Rightarrow> string" where
  "getRefactorSeverity i =
     (if tags_some i [''performance'', ''n+1-query'', ''missing-error-handling''] then ''high''
      else ''medium'')"

definition categorize :: "issue \<Rightarrow> cat_info" where
  "categorize i =
     (if isBug i then
        \<lparr>category = ''BUG'', cat_severity = getBugSeverity i, emoji = emoji_red, sortOrder = 1\<rparr>
      else if isRefactor i then
        \<lparr>category = ''REFACTOR'', cat_severity = getRefactorSeverity i, emoji = emoji_yellow,
         sortOrder = 2\<rparr>
      else
        \<lparr>category = ''SUGGESTION'', cat_severity = ''low'', emoji = emoji_blue, sortOrder = 3\<rparr>)"

text \<open>
  \<open>categorizeMultiple\<close> spreads each issue and its category information into one object
  (\<open>cz_issue\<close> and \<open>cz_info\<close> here; the \<open>severity\<close> of the category information is
  the one the merged object shows), sorts the objects and counts them.
\<close>

record categorized =
  cz_issue :: issue
  cz_info :: cat_info

definition categorized_of :: "issue \<Rightarrow> categorized" where
  "categorized_of i = \<lparr>cz_issue = i, cz_info = categorize i\<rparr>"

text \<open>\<open>x.confidence || 0\<close>: an absent confidence, \<open>NaN\<close> and \<open>0\<close> all give \<open>0\<close>.\<close>

definition confidence_or_0 :: "categorized \<Rightarrow> int" where
  "confidence_or_0 x =
     (case confidence (cz_issue x) of None \<Rightarrow> 0 | Some NaN \<Rightarrow> 0 | Some (Num n) \<Rightarrow> n)"

definition compareFn :: "categorized \<Rightarrow> categorized \<Rightarrow> int" where
  "compareFn a b =
     (if sortOrder (cz_info a) \<noteq> sortOrder (cz_info b)
      then sortOrder (cz_info a) - sortOrder (cz_info b)
      else confidence_or_0 b - confidence_or_0 a)"

text \<open>
  \<open>Array.prototype.sort\<close> with a comparison function is a stable sort: with a
  consistent comparison, as \<open>compareFn\<close> is, the result is the one permutation that is
  ordered by the comparison and keeps the input order of elements that compare equal.
  Insertion from the right computes that permutation.
\<close>

fun insert_by :: "('a \<Rightarrow> 'a \<Rightarrow> int) \<Rightarrow> 'a \<Rightarrow> 'a list \<Rightarrow> 'a list" where
  "insert_by cmp x [] = [x]"
| "insert_by cmp x (y # ys) = (if cmp x y \<le> 0 then x # y # ys else y # insert_by cmp x ys)"

definition array_sort :: "('a \<Rightarrow> 'a \<Rightarrow> int) \<Rightarrow> 'a list \<Rightarrow> 'a list" where
  "array_sort cmp xs = foldr (insert_by cmp) xs []"

record stats =
  st_total :: nat
  st_bugs :: nat
  st_refactors :: nat
  st_suggestions :: nat
  st_critical :: nat
  st_high :: nat
  st_medium :: nat
  st_low :: nat

definition count_where :: "('a \<Rightarrow> bool) \<Rightarrow> 'a list \<Rightarrow> nat" where
  "count_where P xs = length (filter P xs)"

definition categorizeMultiple :: "issue list \<Rightarrow> categorized list \<times> stats" where
  "categorizeMultiple issues =
     (let categorized = array_sort compareFn (map categorized_of issues);
          st = \<lparr>st_total = length categorized,
                st_bugs = count_where (\<lambda>i. category (cz_info i) = ''BUG'') categorized,
                st_refactors = count_where (\<lambda>i. category (cz_info i) = ''REFACTOR'') categorized,
                st_suggestions = count_where (\<lambda>i. category (cz_info i) = ''SUGGESTION'') categorized,
                st_critical = count_where (\<lambda>i. cat_severity (cz_info i) = ''critical'') categorized,
                st_high = count_where (\<lambda>i. cat_severity (cz_info i) = ''high'') categorized,
                st_medium = count_where (\<lambda>i. cat_severity (cz_info i) = ''medium'') categorized,
                st_low = count_where (\<lambda>i. cat_severity (cz_info i) = ''low'') categorized\<rparr>
      in (categorized, st))"

section \<open>Regular expressions\<close>

text \<open>
  The regular expressions of the sources, as syntax trees, and a matcher that follows
  the backtracking order of JavaScript: the matches of an expression from a position
  are listed in the order in which JavaScript would try them (greedy first), and
  \<open>exec\<close> returns the first match from the leftmost position that has one. A state of
  the matcher is the character before the position (\<open>None\<close> at the start of the
  input), the rest of the input and the capture groups set so far.
\<close>

datatype rx =
    Lit char
  | AnyChar
  | OneOf string
  | NoneOf string
  | Seq rx rx
  | Alt rx rx
  | Opt rx
  | Star rx
  | Plus rx
  | Rep nat rx
  | Bol
  | Eol
  | WordB
  | Grp nat rx
  | Eps

type_synonym mstate = "char option \<times> string \<times> (nat \<times> string) list"

definition lower_chars :: string where
  "lower_chars = ''abcdefghijklmnopqrstuvwxyz''"

definition upper_chars :: string where
  "upper_chars = ''ABCDEFGHIJKLMNOPQRSTUVWXYZ''"

definition digit_chars :: string where
  "digit_chars = ''0123456789''"

text \<open>\<open>\w\<close>, \<open>\s\<close> (tab, line feed, vertical tab, form feed, carriage return, space),
  the line terminators that \<open>.\<close> does not match, and the two quote characters.\<close>

definition word_chars :: string where
  "word_chars = lower_chars @ upper_chars @ digit_chars @ ''_''"

definition space_chars :: string where
  "space_chars = [CHR 0x09, CHR 0x0A, CHR 0x0B, CHR 0x0C, CHR 0x0D, CHR 0x20]"

definition line_terminators :: string where
  "line_terminators = [CHR 0x0A, CHR 0x0D]"

definition quote_chars :: string where
  "quote_chars = [CHR 0x27, CHR 0x22]"

definition to_lower :: "char \<Rightarrow> char" where
  "to_lower c = (case map_of (zip upper_chars lower_chars) c of Some l \<Rightarrow> l | None \<Rightarrow> c)"

definition to_upper :: "char \<Rightarrow> char" where
  "to_upper c = (case map_of (zip lower_chars upper_chars) c of Some u \<Rightarrow> u | None \<Rightarrow> c)"

definition toLowerCase :: "string \<Rightarrow> string" where
  "toLowerCase s = map to_lower s"

text \<open>With the flag \<open>i\<close> two characters match when their upper-case forms agree.\<close>

definition chr_eq :: "bool \<Rightarrow> char \<Rightarrow> char \<Rightarrow> bool" where
  "chr_eq ci p c = (if ci then to_upper p = to_upper c else p = c)"

definition in_class :: "bool \<Rightarrow> string \<Rightarrow> char \<Rightarrow> bool" where
  "in_class ci cs c = list_ex (\<lambda>p. chr_eq ci p c) cs"

fun take1 :: "(char \<Rightarrow> bool) \<Rightarrow> mstate \<Rightarrow> mstate list" where
  "take1 P (p, [], g) = []"
| "take1 P (p, c # cs, g) = (if P c then [(Some c, cs, g)] else [])"

definition st_rest :: "mstate \<Rightarrow> string" where
  "st_rest st = fst (snd st)"

text \<open>
  \<open>r*\<close>: one more iteration first, then none. An iteration that consumes nothing is
  rejected, as JavaScript does, so the length of the remaining input bounds the number
  of iterations.
\<close>

fun star_ms :: "(mstate \<Rightarrow> mstate list) \<Rightarrow> nat \<Rightarrow> mstate \<Rightarrow> mstate list" where
  "star_ms f 0 st = [st]"
| "star_ms f (Suc n) st =
     concat (map (star_ms f n)
       (filter (\<lambda>t. length (st_rest t) < length (st_rest st)) (f st))) @ [st]"

fun rep_ms :: "(mstate \<Rightarrow> mstate list) \<Rightarrow> nat \<Rightarrow> mstate \<Rightarrow> mstate list" where
  "rep_ms f 0 st = [st]"
| "rep_ms f (Suc n) st = concat (map (rep_ms f n) (f st))"

fun is_word_opt :: "char option \<Rightarrow> bool" where
  "is_word_opt None = False"
| "is_word_opt (Some c) = (c \<in> set word_chars)"

fun at_word_boundary :: "mstate \<Rightarrow> bool" where
  "at_word_boundary (p, [], g) = is_word_opt p"
| "at_word_boundary (p, c # cs, g) = (is_word_opt p \<noteq> is_word_opt (Some c))"

text \<open>A group records the text consumed between the state before and the state after.\<close>

fun set_group :: "nat \<Rightarrow> mstate \<Rightarrow> mstate \<Rightarrow> mstate" where
  "set_group k (p0, s0, g0) (p, s, g) = (p, s, (k, take (length s0 - length s) s0) # g)"

primrec ms :: "rx \<Rightarrow> bool \<Rightarrow> mstate \<Rightarrow> mstate list" where
  "ms (Lit p) ci st = take1 (chr_eq ci p) st"
| "ms AnyChar ci st = take1 (\<lambda>c. c \<notin> set line_terminators) st"
| "ms (OneOf cs) ci st = take1 (in_class ci cs) st"
| "ms (NoneOf cs) ci st = take1 (\<lambda>c. \<not> in_class ci cs c) st"
| "ms (Seq a b) ci st = concat (map (ms b ci) (ms a ci st))"
| "ms (Alt a b) ci st = ms a ci st @ ms b ci st"
| "ms (Opt a) ci st = ms a ci st @ [st]"
| "ms (Star a) ci st = star_ms (ms a ci) (length (st_rest st)) st"
| "ms (Plus a) ci st =
     concat (map (\<lambda>t. star_ms (ms a ci) (length (st_rest t)) t) (ms a ci st))"
| "ms (Rep n a) ci st = rep_ms (ms a ci) n st"
| "ms Bol ci st = (if fst st = None then [st] else [])"
| "ms Eol ci st = (if st_rest st = [] then [st] else [])"
| "ms WordB ci st = (if at_word_boundary st then [st] else [])"
| "ms (Grp k a) ci st = map (set_group k st) (ms a ci st)"
| "ms Eps ci st = [st]"

fun scan :: "(mstate \<Rightarrow> mstate list) \<Rightarrow> char option \<Rightarrow> string \<Rightarrow> mstate option" where
  "scan f p [] = (case f (p, [], []) of [] \<Rightarrow> None | t # ts \<Rightarrow> Some t)"
| "scan f p (c # cs) = (case f (p, c # cs, []) of [] \<Rightarrow> scan f (Some c) cs | t # ts \<Rightarrow> Some t)"

text \<open>\<open>re.exec(s)\<close> (the state after the first match) and \<open>re.test(s)\<close>; the flag
  says whether the expression carries \<open>i\<close>.\<close>

definition rx_exec :: "bool \<Rightarrow> rx \<Rightarrow> string \<Rightarrow> mstate option" where
  "rx_exec ci r s = scan (ms r ci) None s"

definition rx_test :: "bool \<Rightarrow> rx \<Rightarrow> string \<Rightarrow> bool" where
  "rx_test ci r s = (rx_exec ci r s \<noteq> None)"

text \<open>Writing expressions: a literal string, a sequence, a choice.\<close>

definition rx_str :: "string \<Rightarrow> rx" where
  "rx_str s = foldr (\<lambda>c r. Seq (Lit c) r) s Eps"

definition rx_seq :: "rx list \<Rightarrow> rx" where
  "rx_seq rs = foldr Seq rs Eps"

fun rx_alt :: "rx list \<Rightarrow> rx" where
  "rx_alt [] = OneOf []"
| "rx_alt [r] = r"
| "rx_alt (r # rs) = Alt r (rx_alt rs)"

definition rx_words :: "string list \<Rightarrow> rx" where
  "rx_words ws = rx_alt (map rx_str ws)"

section \<open>IntentAnalyzer: files\<close>

record file_intent =
  fi_type :: string
  fi_purpose :: "string option"
  fi_isProduction :: bool
  fi_isTestFile :: bool
  fi_isConfigFile :: bool
  fi_isMigrationFile :: bool
  fi_allowedPatterns :: "string list"
  fi_strictnessLevel :: string
  fi_maxFunctionLength :: int
  fi_maxComplexity :: int

text \<open>\<open>filename.toLowerCase().replace(/\\/g, '/')\<close>\<close>

definition replace_backslashes :: "string \<Rightarrow> string" where
  "replace_backslashes s = map (\<lambda>c. if c = CHR 0x5C then CHR ''/'' else c) s"

definition normalizePath :: "string \<Rightarrow> string" where
  "normalizePath filename = replace_backslashes (toLowerCase filename)"

text \<open>The regular expressions of \<open>detectFileType\<close>, in the order of the source.\<close>

definition re_test_suffix :: rx where
  "re_test_suffix =
     rx_seq [Lit CHR ''.'', Grp 1 (rx_words [''test'', ''spec'']), Lit CHR ''.'',
             Grp 2 (rx_words [''js'', ''ts'', ''jsx'', ''tsx'', ''py'', ''java'', ''go'', ''rb'']),
             Eol]"

definition re_rc_file :: rx where
  "re_rc_file =
     rx_seq [Bol, Opt (Lit CHR ''.''), Star (OneOf lower_chars), rx_str ''rc'', Lit CHR ''.'',
             Grp 1 (rx_words [''js'', ''json'', ''yaml'', ''yml'']), Eol]"

definition re_config_suffix :: rx where
  "re_config_suffix =
     rx_seq [Lit CHR ''.'', Grp 1 (rx_words [''config'', ''conf'']), Lit CHR ''.'',
             Grp 2 (rx_words [''js'', ''ts'', ''json'']), Eol]"

definition re_config_dir :: rx where
  "re_config_dir =
     rx_seq [Bol, Grp 1 (rx_words [''config'', ''configuration'']), Lit CHR ''/'']"

definition re_dated_migration :: rx where
  "re_dated_migration =
     rx_seq [Rep 4 (OneOf digit_chars), Lit CHR ''_'', Rep 2 (OneOf digit_chars), Lit CHR ''_'',
             Rep 2 (OneOf digit_chars), Lit CHR ''_'', Star AnyChar, Lit CHR ''.'',
             Grp 1 (rx_words [''js'', ''sql'', ''py''])]"

definition re_scripts_dir :: rx where
  "re_scripts_dir = rx_seq [Bol, rx_str ''script'', Opt (Lit CHR ''s''), Lit CHR ''/'']"

definition re_shell_suffix :: rx where
  "re_shell_suffix = rx_seq [Lit CHR ''.'', Grp 1 (rx_words [''sh'', ''bash'']), Eol]"

definition re_build_tool :: rx where
  "re_build_tool =
     rx_seq [Bol, Grp 1 (rx_words [''webpack'', ''vite'', ''rollup'', ''babel'']), Lit CHR ''.'']"

definition detectFileType :: "string \<Rightarrow> string" where
  "detectFileType filename =
     (let normalizedPath = normalizePath filename in
      if rx_test False re_test_suffix normalizedPath then ''test''
      else if str_includes normalizedPath ''__tests__/'' \<or> str_includes normalizedPath ''/tests/''
        then ''test''
      else if str_includes normalizedPath ''__mocks__/'' \<or> str_includes normalizedPath ''__fixtures__/''
        then ''mock''
      else if rx_test False re_rc_file normalizedPath then ''config''
      else if rx_test False re_config_suffix normalizedPath then ''config''
      else if rx_test False re_config_dir normalizedPath then ''config''
      else if normalizedPath = ''.env'' \<or> endsWith normalizedPath ''.env.example'' then ''config''
      else if str_includes normalizedPath ''/migrations/'' \<or> str_includes normalizedPath ''/migrate/''
        then ''migration''
      else if rx_test False re_dated_migration normalizedPath then ''migration''
      else if rx_test False re_scripts_dir normalizedPath then ''script''
      else if rx_test False re_shell_suffix normalizedPath then ''script''
      else if endsWith normalizedPath ''.d.ts'' \<or> str_includes normalizedPath ''/types/''
        then ''types''
      else if rx_test False re_build_tool normalizedPath then ''build''
      else ''production'')"

definition detectFilePurpose :: "string \<Rightarrow> string \<Rightarrow> string option" where
  "detectFilePurpose filename content =
     (if content = [] then None
      else if str_includes content ''// DEBUG'' \<or> str_includes content ''// TEMPORARY''
        then Some ''debug''
      else if str_includes content ''// EXPERIMENTAL'' \<or> str_includes filename ''experiment''
        then Some ''experimental''
      else None)"

text \<open>The lookup tables: \<open>table[fileType] || fallback\<close>.\<close>

definition lookup_or :: "(string \<times> 'a) list \<Rightarrow> string \<Rightarrow> 'a \<Rightarrow> 'a" where
  "lookup_or table k d = (case map_of table k of None \<Rightarrow> d | Some v \<Rightarrow> v)"

definition allowances :: "(string \<times> string list) list" where
  "allowances =
     [(''test'', [''console.log'', ''console.debug'', ''magic-numbers'', ''any-type'',
                  ''mock-data'', ''hardcoded-values'']),
      (''mock'', [''console.log'', ''magic-numbers'', ''unused-variables'', ''hardcoded-values'']),
      (''config'', [''magic-numbers'', ''no-validation'', ''hardcoded-values'']),
      (''migration'', [''raw-sql'', ''no-rollback'', ''magic-numbers'']),
      (''script'', [''console.log'', ''process.exit'', ''magic-numbers'']),
      (''types'', [''no-implementation'', ''any-type'']),
      (''build'', [''magic-numbers'', ''require-calls''])]"

definition getAllowedPatterns :: "string \<Rightarrow> string list" where
  "getAllowedPatterns fileType = lookup_or allowances fileType []"

definition getStrictnessLevel :: "string \<Rightarrow> string" where
  "getStrictnessLevel fileType =
     lookup_or
       [(''production'', ''strict''), (''test'', ''lenient''), (''mock'', ''lenient''),
        (''config'', ''moderate''), (''migration'', ''moderate''), (''script'', ''lenient''),
        (''types'', ''strict''), (''build'', ''moderate'')]
       fileType ''moderate''"

definition getMaxFunctionLength :: "string \<Rightarrow> int" where
  "getMaxFunctionLength fileType =
     lookup_or
       [(''production'', 50), (''test'', 100), (''mock'', 150), (''config'', 200),
        (''migration'', 200), (''script'', 100), (''types'', 50), (''build'', 150)]
       fileType 50"

definition getMaxComplexity :: "string \<Rightarrow> int" where
  "getMaxComplexity fileType =
     lookup_or
       [(''production'', 10), (''test'', 15), (''mock'', 20), (''config'', 5),
        (''migration'', 15), (''script'', 12), (''types'', 5), (''build'', 15)]
       fileType 10"

definition analyzeFileIntent :: "string \<Rightarrow> string \<Rightarrow> file_intent" where
  "analyzeFileIntent filename content =
     (let type = detectFileType filename;
          purpose = detectFilePurpose filename content
      in \<lparr>fi_type = type,
          fi_purpose = purpose,
          fi_isProduction = (type = ''production''),
          fi_isTestFile = (type = ''test''),
          fi_isConfigFile = (type = ''config''),
          fi_isMigrationFile = (type = ''migration''),
          fi_allowedPatterns = getAllowedPatterns type,
          fi_strictnessLevel = getStrictnessLevel type,
          fi_maxFunctionLength = getMaxFunctionLength type,
          fi_maxComplexity = getMaxComplexity type\<rparr>)"

section \<open>CodeAnalyzer: the detectors\<close>

record rule =
  rule_text :: string
  rule_isPattern :: bool
  rule_severity :: string

definition new_issue ::
  "string \<Rightarrow> string \<Rightarrow> string \<Rightarrow> string list \<Rightarrow> string option \<Rightarrow> string option \<Rightarrow> issue" where
  "new_issue msg sug rid tgs sev mt =
     \<lparr>message = msg, suggestion = Some sug, ruleId = Some rid, tags = Some tgs, matchType = mt,
      source = None, language = None, pattern = None, severity = sev, confidence = None\<rparr>"

text \<open>\<open>\s*=\s*['"][^'"]+['"]\<close>, the common tail of the first three secret patterns.\<close>

definition re_quoted_assignment :: "rx list" where
  "re_quoted_assignment =
     [Star (OneOf space_chars), Lit CHR ''='', Star (OneOf space_chars),
      OneOf quote_chars, Plus (NoneOf quote_chars), OneOf quote_chars]"

definition re_api_key :: rx where
  "re_api_key =
     rx_seq (Grp 1 (Alt (rx_seq [rx_str ''api'', Opt (OneOf ''_-''), rx_str ''key''])
                        (rx_str ''apikey'')) # re_quoted_assignment)"

definition re_password :: rx where
  "re_password = rx_seq (Grp 1 (rx_words [''password'', ''passwd'', ''pwd'']) # re_quoted_assignment)"

definition re_secret :: rx where
  "re_secret = rx_seq (Grp 1 (rx_words [''secret'', ''token'']) # re_quoted_assignment)"

definition re_private_key :: rx where
  "re_private_key =
     rx_seq [rx_str ''-----BEGIN '', Grp 1 (Alt (rx_str ''RSA '') Eps), rx_str ''PRIVATE KEY-----'']"

text \<open>Each entry: the flag \<open>i\<close>, the expression, the message and the rule identifier.\<close>

definition secretPatterns :: "(bool \<times> rx \<times> string \<times> string) list" where
  "secretPatterns =
     [(True, re_api_key, ''Potential hardcoded API key detected'', ''hardcoded-secrets''),
      (True, re_password, ''Potential hardcoded password detected'', ''hardcoded-secrets''),
      (True, re_secret, ''Potential hardcoded secret detected'', ''hardcoded-secrets''),
      (False, re_private_key, ''Private key found in code'', ''hardcoded-secrets'')]"

definition re_eval :: rx where
  "re_eval = rx_seq [WordB, rx_str ''eval'', Star (OneOf space_chars), Lit CHR ''('']"

definition re_innerHTML :: rx where
  "re_innerHTML = rx_seq [rx_str ''.innerHTML'', Star (OneOf space_chars), Lit CHR ''='']"

definition re_textContent :: rx where
  "re_textContent = rx_seq [rx_str ''.textContent'', Star (OneOf space_chars), Lit CHR ''='']"

definition re_execute_format :: rx where
  "re_execute_format =
     rx_seq [rx_str ''execute'', Star (OneOf space_chars), Lit CHR ''('', Star (OneOf space_chars),
             OneOf [CHR 0x22, CHR 0x27], Star AnyChar, rx_str ''%s'']"

definition re_execute_fstring :: rx where
  "re_execute_fstring =
     rx_seq [rx_str ''execute'', Star (OneOf space_chars), Lit CHR ''('', Star (OneOf space_chars),
             Lit CHR ''f'', OneOf [CHR 0x22, CHR 0x27]]"

definition secret_issue :: "string \<Rightarrow> string \<Rightarrow> issue" where
  "secret_issue msg rid =
     new_issue msg ''Use environment variables or a secure secret management system'' rid
       [''security'', ''vulnerability'', ''secrets''] None None"

definition checkSecurity :: "string \<Rightarrow> string \<Rightarrow> issue list" where
  "checkSecurity line lang =
     concat (map (\<lambda>(ci, re, msg, rid). if rx_test ci re line then [secret_issue msg rid] else [])
               secretPatterns)
     @ (if lang = ''javascript'' \<or> lang = ''typescript'' then
          (if rx_test False re_eval line then
             [new_issue ''Use of eval() detected - potential security risk''
                ''Avoid eval() and use safer alternatives'' ''dangerous-eval''
                [''security'', ''vulnerability''] None None]
           else [])
          @ (if rx_test False re_innerHTML line \<and> \<not> rx_test False re_textContent line then
               [new_issue ''Use of innerHTML detected - potential XSS vulnerability''
                  ''Consider using textContent or sanitize the HTML first'' ''xss-vulnerability''
                  [''security'', ''vulnerability'', ''xss''] None None]
             else [])
        else [])
     @ (if lang = ''python'' then
          (if rx_test False re_execute_format line \<or> rx_test False re_execute_fstring line then
             [new_issue ''Potential SQL injection vulnerability''
                ''Use parameterized queries instead of string formatting'' ''sql-injection''
                [''security'', ''vulnerability'', ''injection''] None None]
           else [])
        else [])"

definition re_console_log :: rx where
  "re_console_log = rx_seq [rx_str ''console'', Lit CHR ''.'', rx_str ''log'', Lit CHR ''('']"

definition re_print :: rx where
  "re_print = rx_seq [WordB, rx_str ''print'', Lit CHR ''('']"

text \<open>\<open>^\s*#\s*[a-z_]\w*\s*[=(]\<close> for Python, \<open>^\s*\/\/\s*[a-z_]\w*\s*[=(]\<close> otherwise.\<close>

definition re_commented_code :: "string \<Rightarrow> rx" where
  "re_commented_code marker =
     rx_seq [Bol, Star (OneOf space_chars), rx_str marker, Star (OneOf space_chars),
             OneOf (lower_chars @ ''_''), Star (OneOf word_chars), Star (OneOf space_chars),
             OneOf ''=('']"

definition matchRule :: "string \<Rightarrow> rule \<Rightarrow> string \<Rightarrow> file_intent \<Rightarrow> issue option" where
  "matchRule line r lang fileIntent =
     (let ruleLower = toLowerCase (rule_text r);
          commentPattern = (if lang = ''python'' then re_commented_code ''#''
                            else re_commented_code ''//'');
          commented =
            (if str_includes ruleLower ''commented-out code'' \<and> rx_test False commentPattern line then
               Some (new_issue ''Commented-out code detected'' ''Remove unused commented code''
                       ''no-commented-code'' [''maintainability''] (Some ''warning'') (Some ''regex''))
             else None)
      in if str_includes ruleLower ''console.log'' \<or> str_includes ruleLower ''print statement'' then
           (if arr_includes (fi_allowedPatterns fileIntent) ''console.log'' then None
            else if (lang = ''javascript'' \<or> lang = ''typescript'') \<and> rx_test False re_console_log line then
              Some (new_issue ''console.log() statement found in production code''
                      ''Remove console.log() statements before merging'' ''no-console''
                      [''style'', ''production-only''] (Some ''info'') (Some ''regex''))
            else if lang = ''python'' \<and> rx_test False re_print line then
              Some (new_issue ''print() statement found in production code''
                      ''Remove print() statements before merging or use proper logging'' ''no-print''
                      [''style'', ''production-only''] (Some ''info'') (Some ''regex''))
            else commented)
         else commented)"

definition re_var :: rx where
  "re_var = rx_seq [WordB, rx_str ''var'', Plus (OneOf space_chars), Plus (OneOf word_chars)]"

definition re_concat :: rx where
  "re_concat =
     rx_seq [OneOf quote_chars, Star (NoneOf quote_chars), Lit CHR ''+'', Star (NoneOf quote_chars),
             OneOf quote_chars]"

definition matchLanguageRule :: "string \<Rightarrow> rule \<Rightarrow> string \<Rightarrow> file_intent \<Rightarrow> issue option" where
  "matchLanguageRule line r lang fileIntent =
     (let ruleLower = toLowerCase (rule_text r) in
      if lang = ''javascript'' \<or> lang = ''typescript'' then
        (if str_includes ruleLower ''avoid'' \<and> str_includes ruleLower ''var''
            \<and> rx_test False re_var line then
           Some (new_issue (''Use of '' @ [CHR 0x22] @ ''var'' @ [CHR 0x22] @ '' detected'')
                   ''Use const or let instead of var'' ''no-var''
                   [''style'', ''modern-syntax''] (Some ''warning'') (Some ''regex''))
         else if str_includes ruleLower ''template literal'' \<and> rx_test False re_concat line then
           Some (new_issue ''String concatenation with + detected''
                   ''Consider using template literals instead'' ''prefer-template-literal''
                   [''style'', ''modern-syntax''] (Some ''info'') (Some ''regex''))
         else None)
      else None)"

definition applyInstructionRules ::
  "string \<Rightarrow> rule list \<Rightarrow> string \<Rightarrow> file_intent \<Rightarrow> issue list" where
  "applyInstructionRules line rules lang fileIntent =
     concat (map (\<lambda>r. if \<not> rule_isPattern r then []
                       else (case matchRule line r lang fileIntent of None \<Rightarrow> [] | Some i \<Rightarrow> [i]))
               rules)"

definition applyLanguageRules ::
  "string \<Rightarrow> rule list \<Rightarrow> string \<Rightarrow> file_intent \<Rightarrow> issue list" where
  "applyLanguageRules line rules lang fileIntent =
     concat (map (\<lambda>r. case matchLanguageRule line r lang fileIntent of None \<Rightarrow> [] | Some i \<Rightarrow> [i])
               rules)"

section \<open>CodeAnalyzer: from a line to review comments\<close>

text \<open>
  A review comment. \<open>createComment\<close> sets every property; \<open>formatCommentBody\<close> still
  provides for a comment without confidence, category or emoji, so these are optional.
\<close>

record comment =
  c_path :: string
  c_line :: int
  c_message :: string
  c_severity :: string
  c_suggestion :: "string option"
  c_confidence :: "jsnum option"
  c_category :: "string option"
  c_emoji :: "string option"

text \<open>The last four parameters have default values, used when the argument is absent.\<close>

definition createComment ::
  "string \<Rightarrow> int \<Rightarrow> string \<Rightarrow> string \<Rightarrow> string option \<Rightarrow> jsnum option \<Rightarrow> string option
     \<Rightarrow> string option \<Rightarrow> comment" where
  "createComment filename line msg sev sug conf cat em =
     \<lparr>c_path = filename, c_line = line, c_message = msg, c_severity = sev,
      c_suggestion = sug,
      c_confidence = Some (case conf of None \<Rightarrow> Num 70 | Some v \<Rightarrow> v),
      c_category = Some (case cat of None \<Rightarrow> ''SUGGESTION'' | Some v \<Rightarrow> v),
      c_emoji = Some (case em of None \<Rightarrow> emoji_blue | Some v \<Rightarrow> v)\<rparr>"

text \<open>
  The rule set: categories and language buckets in the order in which JavaScript
  enumerates the keys of the two objects.
\<close>

record instructions =
  ins_categories :: "(string \<times> rule list) list"
  ins_languageSpecific :: "(string \<times> rule list) list"
  ins_tone :: string

record relevant_instructions =
  general :: "(string \<times> rule list) list"
  languageSpecific :: "rule list"

definition getRelevantInstructions :: "instructions \<Rightarrow> string \<Rightarrow> relevant_instructions" where
  "getRelevantInstructions ins lang =
     \<lparr>general = ins_categories ins,
      languageSpecific = lookup_or (ins_languageSpecific ins) (toLowerCase lang) []\<rparr>"

text \<open>\<open>issue.tags || fallback\<close>: an array is truthy even when it is empty.\<close>

definition tags_or :: "issue \<Rightarrow> string list \<Rightarrow> string list option" where
  "tags_or i fallback = (case tags i of None \<Rightarrow> Some fallback | Some ts \<Rightarrow> Some ts)"

text \<open>
  \<open>analyzeLine\<close>; the first argument is the rule history of the analyzer's scorer.
\<close>

definition analyzeLine ::
  "rule_history \<Rightarrow> string \<Rightarrow> int \<Rightarrow> string \<Rightarrow> string \<Rightarrow> relevant_instructions \<Rightarrow> file_intent
     \<Rightarrow> comment list" where
  "analyzeLine h lineContent lineNumber filename lang ins fileIntent =
     (let ctx = \<lparr>ctx_filename = filename, ctx_language = lang, ctx_lineNumber = lineNumber,
                 ctx_isTestFile = fi_isTestFile fileIntent,
                 ctx_isConfigFile = fi_isConfigFile fileIntent,
                 ctx_isMigrationFile = fi_isMigrationFile fileIntent,
                 ctx_fileType = fi_type fileIntent\<rparr>;
          securityIssues =
            map (\<lambda>i. i\<lparr>tags := tags_or i [''security''], source := Some ''builtin'',
                         matchType := Some ''regex''\<rparr>)
              (checkSecurity lineContent lang);
          customIssues =
            concat (map (\<lambda>(category, rules).
                      map (\<lambda>i. i\<lparr>source := Some ''custom'',
                                   tags := tags_or i [toLowerCase category]\<rparr>)
                        (applyInstructionRules lineContent rules lang fileIntent))
                    (general ins));
          languageIssues =
            map (\<lambda>i. i\<lparr>language := Some lang, tags := tags_or i [''style''],
                         source := Some ''builtin''\<rparr>)
              (applyLanguageRules lineContent (languageSpecific ins) lang fileIntent);
          rawIssues = securityIssues @ customIssues @ languageIssues
      in map (\<lambda>i. let conf = calculateConfidence h i ctx;
                       categoryInfo = categorize i
                   in createComment filename lineNumber (message i) (cat_severity categoryInfo)
                        (suggestion i) (Some conf) (Some (category categoryInfo))
                        (Some (emoji categoryInfo)))
           rawIssues)"

text \<open>
  \<open>detectLanguage\<close>: the text after the last dot, lower-cased, looked up in the
  language map; \<open>unknown\<close> when the map has no such key. (The two extensions that name
  inherited properties of a JavaScript object, \<open>constructor\<close> and \<open>__proto__\<close>, are
  not modelled.)
\<close>

definition languageMap :: "(string \<times> string) list" where
  "languageMap =
     [(''js'', ''javascript''), (''jsx'', ''javascript''), (''ts'', ''typescript''),
      (''tsx'', ''typescript''), (''py'', ''python''), (''java'', ''java''), (''go'', ''go''),
      (''rb'', ''ruby''), (''php'', ''php''), (''cs'', ''csharp''), (''cpp'', ''cpp''), (''c'', ''c''),
      (''rs'', ''rust''), (''swift'', ''swift''), (''kt'', ''kotlin''), (''md'', ''markdown''),
      (''json'', ''json''), (''yaml'', ''yaml''), (''yml'', ''yaml''), (''xml'', ''xml''),
      (''html'', ''html''), (''css'', ''css''), (''scss'', ''scss''), (''sql'', ''sql''),
      (''sh'', ''shell''), (''bash'', ''shell'')]"

definition last_segment :: "string \<Rightarrow> string" where
  "last_segment s = rev (takeWhile (\<lambda>c. c \<noteq> CHR ''.'') (rev s))"

definition detectLanguage :: "string \<Rightarrow> string" where
  "detectLanguage filename = lookup_or languageMap (toLowerCase (last_segment filename)) ''unknown''"

text \<open>\<open>content.split('\n')\<close>\<close>

fun split_on :: "char \<Rightarrow> string \<Rightarrow> string list" where
  "split_on d [] = [[]]"
| "split_on d (c # cs) =
     (if c = d then [] # split_on d cs
      else (case split_on d cs of [] \<Rightarrow> [[c]] | x # xs \<Rightarrow> (c # x) # xs))"

record source_file =
  file_filename :: string
  file_content :: string

definition analyzeFile ::
  "rule_history \<Rightarrow> instructions \<Rightarrow> source_file \<Rightarrow> (int \<times> string) list \<Rightarrow> comment list" where
  "analyzeFile h ins f changedLinesList =
     (let lang = detectLanguage (file_filename f);
          fileIntent = analyzeFileIntent (file_filename f) (file_content f);
          relevantInstructions = getRelevantInstructions ins lang;
          lines = split_on (CHR 0x0A) (file_content f);
          linesToAnalyze =
            (if length changedLinesList > 0 then changedLinesList
             else zip (map int [1..<Suc (length lines)]) lines)
      in concat (map (\<lambda>(line, content).
                   analyzeLine h content line (file_filename f) lang relevantInstructions fileIntent)
                 linesToAnalyze))"

section \<open>GitHubService: the body of a posted comment\<close>

text \<open>
  The string literals of \<open>formatCommentBody\<close>, byte for byte as they stand in
  \<open>github-service.js\<close>: the fallback emoji, the four confidence markers and the marker
  before a suggestion.
\<close>

definition gh_default_emoji :: string where
  "gh_default_emoji = [CHR 0xEF, CHR 0xA3, CHR 0xBF, CHR 0xC3, CHR 0xBC, CHR 0xC3, CHR 0xAE, CHR 0xC2, CHR 0xB5]"

definition gh_conf_90 :: string where
  "gh_conf_90 = [CHR 0xEF, CHR 0xA3, CHR 0xBF, CHR 0xC3, CHR 0xBC, CHR 0xC3, CHR 0xA9, CHR 0xC3, CHR 0x98]"

definition gh_conf_75 :: string where
  "gh_conf_75 = [CHR 0xE2, CHR 0x80, CHR 0x9A, CHR 0xC3, CHR 0xBA, CHR 0xC3, CHR 0x96]"

definition gh_conf_60 :: string where
  "gh_conf_60 =
     [CHR 0xE2, CHR 0x80, CHR 0x9A, CHR 0xC3, CHR 0xB6, CHR 0xE2, CHR 0x80, CHR 0xA0, CHR 0xC3, CHR 0x94,
      CHR 0xE2, CHR 0x88, CHR 0x8F, CHR 0xC3, CHR 0xA8]"

definition gh_conf_low :: string where
  "gh_conf_low = [CHR 0xE2, CHR 0x80, CHR 0x9A, CHR 0xC3, CHR 0xB9, CHR 0xC3, CHR 0xAE]"

definition gh_suggestion_mark :: string where
  "gh_suggestion_mark = [CHR 0xEF, CHR 0xA3, CHR 0xBF, CHR 0xC3, CHR 0xBC, CHR 0xC3, CHR 0xAD, CHR 0xC2, CHR 0xB0]"

text \<open>A number inside a template literal: decimal digits, a minus sign, or \<open>NaN\<close>.\<close>

fun digits_of :: "nat \<Rightarrow> string" where
  "digits_of n = (if n < 10 then [digit_chars ! n] else digits_of (n div 10) @ [digit_chars ! (n mod 10)])"

declare digits_of.simps [simp del]

fun show_num :: "jsnum \<Rightarrow> string" where
  "show_num NaN = ''NaN''"
| "show_num (Num i) = (if i < 0 then CHR ''-'' # digits_of (nat (- i)) else digits_of (nat i))"

text \<open>\<open>confidence >= n\<close>: a comparison with \<open>NaN\<close> is false.\<close>

fun num_ge :: "jsnum \<Rightarrow> int \<Rightarrow> bool" where
  "num_ge NaN n = False"
| "num_ge (Num i) n = (n \<le> i)"

definition or_default :: "string option \<Rightarrow> string \<Rightarrow> string" where
  "or_default v d = (case v of None \<Rightarrow> d | Some s \<Rightarrow> if s = [] then d else s)"

definition formatCommentBody :: "comment \<Rightarrow> string" where
  "formatCommentBody c =
     (let em = or_default (c_emoji c) gh_default_emoji;
          cat = or_default (c_category c) ''SUGGESTION'';
          conf = (case c_confidence c of None \<Rightarrow> Num 70 | Some v \<Rightarrow> v);
          confidenceEmoji =
            (if num_ge conf 90 then gh_conf_90
             else if num_ge conf 75 then gh_conf_75
             else if num_ge conf 60 then gh_conf_60
             else gh_conf_low);
          body = em @ '' **'' @ cat @ ''** '' @ confidenceEmoji @ '' (Confidence: '' @ show_num conf
                 @ ''%)'' @ [CHR 0x0A, CHR 0x0A];
          body = body @ c_message c @ [CHR 0x0A]
      in case c_suggestion c of
           None \<Rightarrow> body
         | Some s \<Rightarrow>
             if s = [] then body
             else body @ [CHR 0x0A] @ gh_suggestion_mark @ '' **Suggestion**: '' @ s)"

section \<open>IntentAnalyzer: pull requests\<close>

record pr_intent =
  pi_type :: string
  pi_scope :: "string option"
  pi_description :: "string option"
  pi_expectTests :: bool
  pi_expectDocs :: bool
  pi_allowLargeDiffs :: bool
  pi_expectBenchmarks :: bool
  pi_skipCodeChecks :: bool
  pi_focusAreas :: "string list"
  pi_strictness :: string
  pi_requireMigrationGuide :: bool
  pi_isUrgent :: bool
  pi_isDraft :: bool

text \<open>
  A label is a string or an object whose \<open>name\<close> is read; the name of an object may
  be missing. Calling a method on \<open>undefined\<close> throws a \<open>TypeError\<close>.
\<close>

datatype label = LabelString string | LabelObject "string option"

datatype js_error = TypeError

text \<open>
  \<open>/^(feat|fix|refactor|perf|docs|test|chore|style|build|ci)(?:\(([^)]+)\))?:\s*(.+)/i\<close>
\<close>

definition re_title :: rx where
  "re_title =
     rx_seq [Bol,
             Grp 1 (rx_words [''feat'', ''fix'', ''refactor'', ''perf'', ''docs'', ''test'', ''chore'',
                              ''style'', ''build'', ''ci'']),
             Opt (rx_seq [Lit CHR ''('', Grp 2 (Plus (NoneOf '')'')), Lit CHR '')'']),
             Lit CHR '':'', Star (OneOf space_chars), Grp 3 (Plus AnyChar)]"

text \<open>The text of a capture group after a match; \<open>None\<close> for a group that took no part.\<close>

definition group :: "mstate \<Rightarrow> nat \<Rightarrow> string option" where
  "group st k = map_of (snd (snd st)) k"

definition default_intent :: "string \<Rightarrow> pr_intent" where
  "default_intent prTitle =
     \<lparr>pi_type = ''general'', pi_scope = None, pi_description = Some prTitle,
      pi_expectTests = False, pi_expectDocs = False, pi_allowLargeDiffs = False,
      pi_expectBenchmarks = False, pi_skipCodeChecks = False, pi_focusAreas = [],
      pi_strictness = ''normal'', pi_requireMigrationGuide = False, pi_isUrgent = False,
      pi_isDraft = False\<rparr>"

text \<open>The \<open>switch\<close> on the type of the title.\<close>

definition apply_type :: "pr_intent \<Rightarrow> pr_intent" where
  "apply_type i =
     (if pi_type i = ''feat'' then
        i\<lparr>pi_expectTests := True, pi_expectDocs := True,
          pi_focusAreas := [''functionality'', ''edge-cases'', ''error-handling'']\<rparr>
      else if pi_type i = ''fix'' then
        i\<lparr>pi_expectTests := True, pi_focusAreas := [''correctness'', ''regression'', ''edge-cases'']\<rparr>
      else if pi_type i = ''refactor'' then
        i\<lparr>pi_allowLargeDiffs := True,
          pi_focusAreas := [''behavior-preservation'', ''no-logic-change'', ''maintainability'']\<rparr>
      else if pi_type i = ''perf'' then
        i\<lparr>pi_expectBenchmarks := True,
          pi_focusAreas := [''performance'', ''benchmarks'', ''algorithmic-complexity'']\<rparr>
      else if pi_type i = ''docs'' then
        i\<lparr>pi_skipCodeChecks := True, pi_focusAreas := [''documentation-quality'']\<rparr>
      else if pi_type i = ''test'' then i\<lparr>pi_focusAreas := [''test-coverage'', ''test-quality'']\<rparr>
      else if pi_type i = ''style'' then i\<lparr>pi_focusAreas := [''consistency'', ''formatting'']\<rparr>
      else if pi_type i = ''chore'' then i\<lparr>pi_strictness := ''lenient''\<rparr>
      else i)"

text \<open>
  The part before the labels. \<open>type.toLowerCase()\<close> would throw on a match without the
  first group.
\<close>

definition parse_title :: "string \<Rightarrow> js_error + pr_intent" where
  "parse_title prTitle =
     (case rx_exec True re_title prTitle of
        None \<Rightarrow> Inr (default_intent prTitle)
      | Some titleMatch \<Rightarrow>
          (case group titleMatch 1 of
             None \<Rightarrow> Inl TypeError
           | Some type \<Rightarrow>
               Inr (apply_type ((default_intent prTitle)
                      \<lparr>pi_type := toLowerCase type, pi_scope := group titleMatch 2,
                       pi_description := group titleMatch 3\<rparr>))))"

text \<open>One round of the loop over the labels.\<close>

fun label_name :: "label \<Rightarrow> string option" where
  "label_name (LabelString s) = Some s"
| "label_name (LabelObject n) = n"

definition apply_label :: "pr_intent \<Rightarrow> label \<Rightarrow> js_error + pr_intent" where
  "apply_label i l =
     (case label_name l of
        None \<Rightarrow> Inl TypeError
      | Some labelName \<Rightarrow>
          (let normalizedLabel = toLowerCase labelName;
               i = (if str_includes normalizedLabel ''breaking''
                    then i\<lparr>pi_requireMigrationGuide := True,
                           pi_focusAreas := pi_focusAreas i @ [''breaking-changes'']\<rparr>
                    else i);
               i = (if str_includes normalizedLabel ''security''
                    then i\<lparr>pi_focusAreas := pi_focusAreas i @ [''security''],
                           pi_strictness := ''strict''\<rparr>
                    else i);
               i = (if str_includes normalizedLabel ''hotfix'' \<or> str_includes normalizedLabel ''urgent''
                    then i\<lparr>pi_isUrgent := True\<rparr>
                    else i);
               i = (if str_includes normalizedLabel ''wip'' \<or> str_includes normalizedLabel ''draft''
                    then i\<lparr>pi_isDraft := True, pi_strictness := ''lenient''\<rparr>
                    else i)
           in Inr i))"

fun apply_labels :: "pr_intent \<Rightarrow> label list \<Rightarrow> js_error + pr_intent" where
  "apply_labels i [] = Inr i"
| "apply_labels i (l # ls) =
     (case apply_label i l of Inl e \<Rightarrow> Inl e | Inr i' \<Rightarrow> apply_labels i' ls)"

definition analyzePRIntent :: "string \<Rightarrow> string \<Rightarrow> label list \<Rightarrow> js_error + pr_intent" where
  "analyzePRIntent prTitle prBody labels =
     (case parse_title prTitle of
        Inl e \<Rightarrow> Inl e
      | Inr intent \<Rightarrow> apply_labels intent labels)"

section \<open>Inputs and reference definitions for the properties\<close>

text \<open>The changed line of worked scenario A: \<open>const apiKey = "sk-1234567890abcdef";\<close>\<close>

definition line_a :: string where
  "line_a = ''const apiKey = '' @ [CHR 0x22] @ ''sk-1234567890abcdef'' @ [CHR 0x22] @ '';''"

text \<open>The raw issue that \<open>analyzeLine\<close> builds for that line.\<close>

definition raw_issue_a :: issue where
  "raw_issue_a =
     (secret_issue ''Potential hardcoded API key detected'' ''hardcoded-secrets'')
       \<lparr>tags := Some [''security'', ''vulnerability'', ''secrets''], source := Some ''builtin'',
        matchType := Some ''regex''\<rparr>"

text \<open>The priority of a category as the specification orders them.\<close>

definition category_rank :: "string \<Rightarrow> nat" where
  "category_rank c = (if c = ''BUG'' then 1 else if c = ''REFACTOR'' then 2 else 3)"

text \<open>
  File-type classification as the specification words it: the path is lower-cased and
  its backslashes become forward slashes; then an ordered list of predicates is tried,
  the first one that holds decides, and \<open>production\<close> is the default. The predicates
  are those of the source, grouped as the specification names them.
\<close>

definition spec_normalize :: "string \<Rightarrow> string" where
  "spec_normalize path = map (\<lambda>c. if c = CHR 0x5C then CHR ''/'' else c) (map to_lower path)"

definition is_test_path :: "string \<Rightarrow> bool" where
  "is_test_path p =
     (rx_test False re_test_suffix p \<or> str_includes p ''__tests__/'' \<or> str_includes p ''/tests/'')"

definition is_mock_path :: "string \<Rightarrow> bool" where
  "is_mock_path p = (str_includes p ''__mocks__/'' \<or> str_includes p ''__fixtures__/'')"

definition is_config_path :: "string \<Rightarrow> bool" where
  "is_config_path p =
     (rx_test False re_rc_file p \<or> rx_test False re_config_suffix p \<or> rx_test False re_config_dir p
      \<or> p = ''.env'' \<or> endsWith p ''.env.example'')"

definition is_migration_path :: "string \<Rightarrow> bool" where
  "is_migration_path p =
     (str_includes p ''/migrations/'' \<or> str_includes p ''/migrate/''
      \<or> rx_test False re_dated_migration p)"

definition is_script_path :: "string \<Rightarrow> bool" where
  "is_script_path p = (rx_test False re_scripts_dir p \<or> rx_test False re_shell_suffix p)"

definition is_types_path :: "string \<Rightarrow> bool" where
  "is_types_path p = (endsWith p ''.d.ts'' \<or> str_includes p ''/types/'')"

definition is_build_path :: "string \<Rightarrow> bool" where
  "is_build_path p = rx_test False re_build_tool p"

definition file_type_rules :: "((string \<Rightarrow> bool) \<times> string) list" where
  "file_type_rules =
     [(is_test_path, ''test''), (is_mock_path, ''mock''), (is_config_path, ''config''),
      (is_migration_path, ''migration''), (is_script_path, ''script''), (is_types_path, ''types''),
      (is_build_path, ''build'')]"

fun first_match :: "((string \<Rightarrow> bool) \<times> string) list \<Rightarrow> string \<Rightarrow> string" where
  "first_match [] p = ''production''"
| "first_match ((holds, t) # rules) p = (if holds p then t else first_match rules p)"

definition spec_classifyFile :: "string \<Rightarrow> string" where
  "spec_classifyFile path = first_match file_type_rules (spec_normalize path)"

text \<open>
  The display body of a finding as the specification gives it, with the emoji it names:
  direct hit, check mark, warning sign, question mark and light bulb (UTF-8 bytes).
\<close>

definition emoji_target :: string where
  "emoji_target = [CHR 0xF0, CHR 0x9F, CHR 0x8E, CHR 0xAF]"

definition emoji_check :: string where
  "emoji_check = [CHR 0xE2, CHR 0x9C, CHR 0x85]"

definition emoji_warning :: string where
  "emoji_warning = [CHR 0xE2, CHR 0x9A, CHR 0xA0, CHR 0xEF, CHR 0xB8, CHR 0x8F]"

definition emoji_question :: string where
  "emoji_question = [CHR 0xE2, CHR 0x9D, CHR 0x94]"

definition emoji_bulb :: string where
  "emoji_bulb = [CHR 0xF0, CHR 0x9F, CHR 0x92, CHR 0xA1]"

definition spec_confidenceEmoji :: "jsnum \<Rightarrow> string" where
  "spec_confidenceEmoji conf =
     (if num_ge conf 90 then emoji_target
      else if num_ge conf 75 then emoji_check
      else if num_ge conf 60 then emoji_warning
      else emoji_question)"

definition spec_display_body ::
  "string \<Rightarrow> string \<Rightarrow> jsnum \<Rightarrow> string \<Rightarrow> string option \<Rightarrow> string" where
  "spec_display_body em cat conf msg sug =
     em @ '' **'' @ cat @ ''** '' @ spec_confidenceEmoji conf @ '' (Confidence: '' @ show_num conf
     @ ''%)'' @ [CHR 0x0A, CHR 0x0A] @ msg @ [CHR 0x0A]
     @ (case sug of None \<Rightarrow> [] | Some s \<Rightarrow> [CHR 0x0A] @ emoji_bulb @ '' **Suggestion**: '' @ s)"

text \<open>The finding of worked scenario A, as \<open>analyzeLine\<close> returns it.\<close>

definition finding_a :: comment where
  "finding_a =
     \<lparr>c_path = ''src/app.js'', c_line = 1, c_message = ''Potential hardcoded API key detected'',
      c_severity = ''critical'',
      c_suggestion = Some ''Use environment variables or a secure secret management system'',
      c_confidence = Some (Num 71), c_category = Some ''BUG'', c_emoji = Some emoji_red\<rparr>"

text \<open>A label whose name contains none of the words the label loop looks for.\<close>

definition label_keywords :: "string list" where
  "label_keywords = [''breaking'', ''security'', ''hotfix'', ''urgent'', ''wip'', ''draft'']"

definition unknown_label :: "label \<Rightarrow> bool" where
  "unknown_label l =
     (case label_name l of
        None \<Rightarrow> False
      | Some n \<Rightarrow> \<not> list_ex (str_includes (toLowerCase n)) label_keywords)"

definition named_label :: "label \<Rightarrow> bool" where
  "named_label l = (label_name l \<noteq> None)"

text \<open>The line \<open>console.log("x")\<close> and a rule of worked scenarios B and C.\<close>

definition line_b :: string where
  "line_b = ''console.log('' @ [CHR 0x22] @ ''x'' @ [CHR 0x22] @ '')''"

definition rule_b :: rule where
  "rule_b = \<lparr>rule_text = ''Remove console.log statements before merging'', rule_isPattern = True,
              rule_severity = ''info''\<rparr>"

text \<open>
  The line \<open>var x = console.log("x")\<close> and a rule of the JavaScript bucket whose text
  mentions \<open>console.log\<close>.
\<close>

definition line_c :: string where
  "line_c = ''var x = console.log('' @ [CHR 0x22] @ ''x'' @ [CHR 0x22] @ '')''"

definition rule_c :: rule where
  "rule_c = \<lparr>rule_text = ''Remove console.log statements and avoid var'', rule_isPattern = True,
              rule_severity = ''info''\<rparr>"

section \<open>The rule history and the confidence score\<close>

lemma recordFeedback_keeps_counts:
  assumes "\<And>r e. h r = Some e \<Longrightarrow> 1 \<le> correct e + falsePositive e"
    and "recordFeedback h rid w r = Some e"
  shows "1 \<le> correct e + falsePositive e"
  using assms
  by (cases "h rid"; cases "r = rid"; cases w) (auto simp: recordFeedback_def Let_def)

lemma feedback_run_keeps_counts:
  "(\<And>r e. h r = Some e \<Longrightarrow> 1 \<le> correct e + falsePositive e) \<Longrightarrow>
   feedback_run h fs r = Some e \<Longrightarrow> 1 \<le> correct e + falsePositive e"
proof (induction fs arbitrary: h)
  case Nil
  then show ?case by simp
next
  case (Cons f fs)
  obtain rid w where f: "f = (rid, w)" by (cases f)
  have step: "\<And>r e. recordFeedback h rid w r = Some e \<Longrightarrow> 1 \<le> correct e + falsePositive e"
    using recordFeedback_keeps_counts [of h rid w] Cons.prems(1) by blast
  from Cons.prems(2) have "feedback_run (recordFeedback h rid w) fs r = Some e"
    by (simp add: f)
  with Cons.IH [of "recordFeedback h rid w"] step show ?case by blast
qed

lemma reachable_history_counts:
  "feedback_run new_history fs r = Some e \<Longrightarrow> 1 \<le> correct e + falsePositive e"
  by (rule feedback_run_keeps_counts [of new_history]) (simp_all add: new_history_def)

lemma accuracy_score_range:
  assumes pos: "1 \<le> correct e + falsePositive e"
  shows "\<exists>n. accuracy_score e = Num n \<and> 0 \<le> n \<and> n \<le> 20"
proof -
  have "20 * correct e \<le> 20 * (correct e + falsePositive e)" by simp
  then have "(20 * correct e) div (correct e + falsePositive e) \<le> 20"
    using pos by (metis div_le_mono div_mult_self_is_m less_eq_Suc_le One_nat_def)
  then show ?thesis using pos by (auto simp: accuracy_score_def)
qed

lemma scoreHistory_range:
  assumes "\<And>r e. h r = Some e \<Longrightarrow> 1 \<le> correct e + falsePositive e"
  shows "\<exists>n. scoreHistory h rid = Num n \<and> 0 \<le> n \<and> n \<le> 20"
proof (cases rid)
  case None
  then show ?thesis by (simp add: scoreHistory_def)
next
  case (Some r)
  show ?thesis
  proof (cases "h r")
    case None
    then show ?thesis using Some by (simp add: scoreHistory_def)
  next
    case (Some e)
    with assms have "1 \<le> correct e + falsePositive e" by blast
    from accuracy_score_range [OF this] Some \<open>rid = Some r\<close> show ?thesis
      by (auto simp: scoreHistory_def)
  qed
qed

lemma scorePatternMatch_range: "10 \<le> scorePatternMatch i \<and> scorePatternMatch i \<le> 30"
  by (simp add: scorePatternMatch_def)

lemma scoreContext_range: "0 \<le> scoreContext i c \<and> scoreContext i c \<le> 30"
  by (simp add: scoreContext_def)

lemma scoreRuleType_range: "10 \<le> scoreRuleType i \<and> scoreRuleType i \<le> 20"
  by (simp add: scoreRuleType_def)

text \<open>
  Claim C10. Every entry of the rule history has \<open>correct + falsePositive \<ge> 1\<close>: the
  history starts empty, an entry is created only by \<open>recordFeedback\<close>, and the same call
  increments one of its counters. Hence, in every history that a scorer can hold, the
  division of \<open>scoreHistory\<close> is defined, and \<open>scoreHistory\<close> returns an integer between
  0 and 20, never \<open>NaN\<close>, for every rule identifier (present, absent or empty).
\<close>

theorem history_entries_counted:
  "(\<forall>rid e. feedback_run new_history fs rid = Some e \<longrightarrow> 1 \<le> correct e + falsePositive e)
   \<and> (\<forall>rid. \<exists>n. scoreHistory (feedback_run new_history fs) rid = Num n \<and> 0 \<le> n \<and> n \<le> 20)"
  using reachable_history_counts [of fs] scoreHistory_range [of "feedback_run new_history fs"]
  by blast

theorem history_entries_counted_witness:
  "feedback_run new_history [(''no-var'', True), (''no-var'', False), (''no-var'', True)] ''no-var''
     = Some \<lparr>correct = 2, falsePositive = 1\<rparr>
   \<and> (1::nat) \<le> 2 + 1
   \<and> scoreHistory (feedback_run new_history [(''no-var'', True), (''no-var'', False), (''no-var'', True)])
        (Some ''no-var'') = Num 13"
  using history_entries_counted [of "[(''no-var'', True), (''no-var'', False), (''no-var'', True)]"]
  by (simp add: new_history_def recordFeedback_def scoreHistory_def accuracy_score_def)

text \<open>
  Claim C3. For every issue and every context, and every rule history the scorer can
  hold, \<open>calculateConfidence\<close> returns an integer (not \<open>NaN\<close>) between 0 and 100, and
  that integer is the sum of the four sub-scores clamped to the range 0 to 100.
\<close>

theorem calculateConfidence_clamped:
  "\<exists>n d. scoreHistory (feedback_run new_history fs) (ruleId i) = Num d
         \<and> calculateConfidence (feedback_run new_history fs) i c = Num n
         \<and> n = min 100 (max 0 (scorePatternMatch i + scoreContext i c + scoreRuleType i + d))
         \<and> 0 \<le> n \<and> n \<le> 100"
proof -
  from scoreHistory_range [of "feedback_run new_history fs" "ruleId i"] reachable_history_counts [of fs]
  obtain d where d: "scoreHistory (feedback_run new_history fs) (ruleId i) = Num d" by blast
  show ?thesis using d by (simp add: calculateConfidence_def Let_def)
qed

theorem calculateConfidence_clamped_witness:
  "calculateConfidence (feedback_run new_history [(''hardcoded-secrets'', False)]) raw_issue_a
     \<lparr>ctx_filename = ''src/app.js'', ctx_language = ''javascript'', ctx_lineNumber = 1,
      ctx_isTestFile = False, ctx_isConfigFile = False, ctx_isMigrationFile = False,
      ctx_fileType = ''production''\<rparr> = Num 53"
  using calculateConfidence_clamped [of "[(''hardcoded-secrets'', False)]" raw_issue_a
      "\<lparr>ctx_filename = ''src/app.js'', ctx_language = ''javascript'', ctx_lineNumber = 1,
        ctx_isTestFile = False, ctx_isConfigFile = False, ctx_isMigrationFile = False,
        ctx_fileType = ''production''\<rparr>"]
  by (simp add: calculateConfidence_def scorePatternMatch_def scoreContext_def scoreRuleType_def
      scoreHistory_def accuracy_score_def recordFeedback_def new_history_def raw_issue_a_def
      secret_issue_def new_issue_def tags_include_def arr_includes_def)

section \<open>The categorizer\<close>

text \<open>
  Claim C4. Every issue whose tags contain \<open>security\<close> is categorized as \<open>BUG\<close> with
  severity \<open>critical\<close>. The bug table is consulted before the refactor table, so this
  holds also when the issue carries a refactor tag or a refactor rule identifier.
\<close>

theorem categorize_security:
  assumes "tags i = Some ts" and "''security'' \<in> set ts"
  shows "category (categorize i) = ''BUG'' \<and> cat_severity (categorize i) = ''critical''"
proof -
  have inc: "tags_include i ''security''"
    using assms by (simp add: tags_include_def arr_includes_def)
  have "list_ex (arr_includes bugTags) ts"
    unfolding list_ex_iff using assms(2)
    by (rule_tac x="''security''" in bexI) (simp_all add: arr_includes_def bugTags_def)
  then have "isBug i" using assms(1) by (simp add: isBug_def tags_some_def)
  then show ?thesis using inc by (simp add: categorize_def getBugSeverity_def)
qed

theorem categorize_security_witness:
  "tags (raw_issue_a\<lparr>tags := Some [''performance'', ''security''], ruleId := Some ''function-length''\<rparr>)
     = Some [''performance'', ''security'']
   \<and> ''security'' \<in> set [''performance'', ''security'']
   \<and> isRefactor (raw_issue_a\<lparr>tags := Some [''performance'', ''security''], ruleId := Some ''function-length''\<rparr>)
   \<and> category (categorize (raw_issue_a\<lparr>tags := Some [''performance'', ''security''],
         ruleId := Some ''function-length''\<rparr>)) = ''BUG''
   \<and> cat_severity (categorize (raw_issue_a\<lparr>tags := Some [''performance'', ''security''],
         ruleId := Some ''function-length''\<rparr>)) = ''critical''"
  using categorize_security [of "raw_issue_a\<lparr>tags := Some [''performance'', ''security''],
      ruleId := Some ''function-length''\<rparr>" "[''performance'', ''security'']"]
  by (simp add: isRefactor_def tags_some_def arr_includes_def refactorTags_def)

section \<open>The order of categorized issues\<close>

lemma set_insert_by: "set (insert_by cmp x xs) = insert x (set xs)"
  by (induction xs) auto

lemma mset_insert_by: "mset (insert_by cmp x xs) = add_mset x (mset xs)"
  by (induction xs) auto

lemma mset_array_sort: "mset (array_sort cmp xs) = mset xs"
  by (induction xs) (simp_all add: array_sort_def mset_insert_by)

lemma sorted_insert_by:
  assumes tot: "\<And>a b. \<not> cmp a b \<le> 0 \<Longrightarrow> cmp b a \<le> 0"
    and tr: "\<And>a b c. cmp a b \<le> 0 \<Longrightarrow> cmp b c \<le> 0 \<Longrightarrow> cmp a c \<le> 0"
    and srt: "sorted_wrt (\<lambda>a b. cmp a b \<le> 0) xs"
  shows "sorted_wrt (\<lambda>a b. cmp a b \<le> 0) (insert_by cmp x xs)"
  using srt
proof (induction xs)
  case Nil
  then show ?case by simp
next
  case (Cons y ys)
  show ?case
  proof (cases "cmp x y \<le> 0")
    case True
    have "cmp x z \<le> 0" if "z \<in> set ys" for z
    proof -
      from that Cons.prems have "cmp y z \<le> 0" by simp
      with True show ?thesis by (rule tr)
    qed
    with True Cons.prems show ?thesis by simp
  next
    case False
    then have "cmp y x \<le> 0" by (rule tot)
    moreover from Cons have "sorted_wrt (\<lambda>a b. cmp a b \<le> 0) (insert_by cmp x ys)" by simp
    ultimately show ?thesis using False Cons.prems by (auto simp: set_insert_by)
  qed
qed

lemma sorted_array_sort:
  assumes "\<And>a b. \<not> cmp a b \<le> 0 \<Longrightarrow> cmp b a \<le> 0"
    and "\<And>a b c. cmp a b \<le> 0 \<Longrightarrow> cmp b c \<le> 0 \<Longrightarrow> cmp a c \<le> 0"
  shows "sorted_wrt (\<lambda>a b. cmp a b \<le> 0) (array_sort cmp xs)"
proof (induction xs)
  case Nil
  show ?case by (simp add: array_sort_def)
next
  case (Cons x xs)
  have "array_sort cmp (x # xs) = insert_by cmp x (array_sort cmp xs)"
    by (simp add: array_sort_def)
  moreover have "sorted_wrt (\<lambda>a b. cmp a b \<le> 0) (insert_by cmp x (array_sort cmp xs))"
    using assms(1) assms(2) Cons.IH by (rule sorted_insert_by)
  ultimately show ?case by simp
qed

lemma filter_insert_by:
  assumes "\<And>y. y \<in> set xs \<Longrightarrow> P y \<Longrightarrow> P x \<Longrightarrow> cmp x y \<le> 0"
  shows "filter P (insert_by cmp x xs) = (if P x then x # filter P xs else filter P xs)"
  using assms by (induction xs) auto

lemma filter_array_sort:
  assumes "\<And>x y. P x \<Longrightarrow> P y \<Longrightarrow> cmp x y \<le> 0"
  shows "filter P (array_sort cmp xs) = filter P xs"
proof (induction xs)
  case Nil
  show ?case by (simp add: array_sort_def)
next
  case (Cons x xs)
  have "array_sort cmp (x # xs) = insert_by cmp x (array_sort cmp xs)"
    by (simp add: array_sort_def)
  then show ?case using Cons assms by (simp add: filter_insert_by)
qed

lemma compareFn_le_iff:
  "compareFn a b \<le> 0 \<longleftrightarrow>
     sortOrder (cz_info a) < sortOrder (cz_info b)
     \<or> (sortOrder (cz_info a) = sortOrder (cz_info b) \<and> confidence_or_0 b \<le> confidence_or_0 a)"
  by (auto simp: compareFn_def)

lemma sortOrder_categorize:
  "sortOrder (categorize i) = int (category_rank (category (categorize i)))"
  by (cases "isBug i"; cases "isRefactor i") (simp_all add: categorize_def category_rank_def)

lemma categorizeMultiple_sorted_by_compareFn:
  "sorted_wrt (\<lambda>a b. compareFn a b \<le> 0) (fst (categorizeMultiple issues))"
proof -
  have "sorted_wrt (\<lambda>a b. compareFn a b \<le> 0) (array_sort compareFn (map categorized_of issues))"
    by (rule sorted_array_sort) (auto simp: compareFn_le_iff)
  then show ?thesis by (simp add: categorizeMultiple_def Let_def)
qed


lemma category_of_sortOrder:
  assumes "sortOrder (categorize i) = sortOrder (categorize j)"
  shows "category (categorize i) = category (categorize j)"
  using assms
  by (cases "isBug i"; cases "isRefactor i"; cases "isBug j"; cases "isRefactor j")
     (simp_all add: categorize_def)

lemma rank_less_of_sortOrder:
  "sortOrder (categorize i) < sortOrder (categorize j) \<Longrightarrow>
   category_rank (category (categorize i)) < category_rank (category (categorize j))"
  by (simp add: sortOrder_categorize)

text \<open>
  Claim C6. In the sequence that \<open>categorizeMultiple\<close> returns, every \<open>BUG\<close> entry
  comes before every \<open>REFACTOR\<close> entry and every \<open>REFACTOR\<close> entry before every
  \<open>SUGGESTION\<close> entry, and within one category the confidence never increases (an
  absent confidence counts as 0, as in the comparison function). The sequence is a
  permutation of the categorized input, and entries with the same sort order and the
  same confidence keep their input order, so the output order is a function of the
  input alone.
\<close>

theorem categorizeMultiple_order:
  "sorted_wrt (\<lambda>a b. category_rank (category (cz_info a)) < category_rank (category (cz_info b))
                  \<or> (category (cz_info a) = category (cz_info b)
                      \<and> confidence_or_0 b \<le> confidence_or_0 a))
     (fst (categorizeMultiple issues))
   \<and> mset (fst (categorizeMultiple issues)) = mset (map categorized_of issues)
   \<and> (\<forall>k n. filter (\<lambda>x. sortOrder (cz_info x) = k \<and> confidence_or_0 x = n) (fst (categorizeMultiple issues))
            = filter (\<lambda>x. sortOrder (cz_info x) = k \<and> confidence_or_0 x = n) (map categorized_of issues))"
proof -
  let ?out = "fst (categorizeMultiple issues)"
  let ?R = "\<lambda>a b. category_rank (category (cz_info a)) < category_rank (category (cz_info b))
                  \<or> (category (cz_info a) = category (cz_info b)
                      \<and> confidence_or_0 b \<le> confidence_or_0 a)"
  have out: "?out = array_sort compareFn (map categorized_of issues)"
    by (simp add: categorizeMultiple_def Let_def)
  have perm: "mset ?out = mset (map categorized_of issues)"
    by (simp add: out mset_array_sort)
  have mem: "\<exists>i. x = categorized_of i" if "x \<in> set ?out" for x
  proof -
    from that have "x \<in># mset ?out" by simp
    then have "x \<in> set (map categorized_of issues)" unfolding perm by simp
    then show ?thesis by auto
  qed
  have rel: "?R a b" if a: "a \<in> set ?out" and b: "b \<in> set ?out" and le: "compareFn a b \<le> 0" for a b
  proof -
    obtain i j where ij: "a = categorized_of i" "b = categorized_of j" using mem a b by blast
    from le consider "sortOrder (categorize i) < sortOrder (categorize j)"
      | "sortOrder (categorize i) = sortOrder (categorize j)" "confidence_or_0 b \<le> confidence_or_0 a"
      unfolding compareFn_le_iff ij by (auto simp: categorized_of_def)
    then show ?thesis
    proof cases
      case 1
      from rank_less_of_sortOrder [OF this] show ?thesis by (simp add: ij categorized_of_def)
    next
      case 2
      from category_of_sortOrder [OF 2(1)] 2(2) show ?thesis by (simp add: ij categorized_of_def)
    qed
  qed
  have "sorted_wrt (\<lambda>a b. compareFn a b \<le> 0) ?out"
    by (rule categorizeMultiple_sorted_by_compareFn)
  then have srt: "sorted_wrt ?R ?out"
    by (rule sorted_wrt_mono_rel [rotated]) (rule rel)
  have stab: "filter (\<lambda>x. sortOrder (cz_info x) = k \<and> confidence_or_0 x = n) ?out
            = filter (\<lambda>x. sortOrder (cz_info x) = k \<and> confidence_or_0 x = n) (map categorized_of issues)" for k n
    unfolding out by (rule filter_array_sort) (simp add: compareFn_def)
  show ?thesis using srt perm stab by blast
qed

theorem categorizeMultiple_order_witness:
  "map (\<lambda>x. (category (cz_info x), confidence_or_0 x, message (cz_issue x)))
     (fst (categorizeMultiple
        [raw_issue_a\<lparr>tags := Some [''style''], ruleId := None, confidence := Some (Num 50), message := ''a''\<rparr>,
         raw_issue_a\<lparr>tags := Some [''naming''], ruleId := None, confidence := Some (Num 60), message := ''b''\<rparr>,
         raw_issue_a\<lparr>confidence := Some (Num 70), message := ''c''\<rparr>,
         raw_issue_a\<lparr>tags := Some [''naming''], ruleId := None, confidence := None, message := ''d''\<rparr>,
         raw_issue_a\<lparr>confidence := Some (Num 90), message := ''e''\<rparr>,
         raw_issue_a\<lparr>confidence := Some (Num 70), message := ''f''\<rparr>]))
   = [(''BUG'', 90, ''e''), (''BUG'', 70, ''c''), (''BUG'', 70, ''f''), (''REFACTOR'', 60, ''b''),
      (''REFACTOR'', 0, ''d''), (''SUGGESTION'', 50, ''a'')]"
proof -
  have run: "map (\<lambda>x. (category (cz_info x), confidence_or_0 x, message (cz_issue x)))
     (fst (categorizeMultiple
        [raw_issue_a\<lparr>tags := Some [''style''], ruleId := None, confidence := Some (Num 50), message := ''a''\<rparr>,
         raw_issue_a\<lparr>tags := Some [''naming''], ruleId := None, confidence := Some (Num 60), message := ''b''\<rparr>,
         raw_issue_a\<lparr>confidence := Some (Num 70), message := ''c''\<rparr>,
         raw_issue_a\<lparr>tags := Some [''naming''], ruleId := None, confidence := None, message := ''d''\<rparr>,
         raw_issue_a\<lparr>confidence := Some (Num 90), message := ''e''\<rparr>,
         raw_issue_a\<lparr>confidence := Some (Num 70), message := ''f''\<rparr>]))
   = [(''BUG'', 90, ''e''), (''BUG'', 70, ''c''), (''BUG'', 70, ''f''), (''REFACTOR'', 60, ''b''),
      (''REFACTOR'', 0, ''d''), (''SUGGESTION'', 50, ''a'')]"
    by (simp add: categorizeMultiple_def Let_def array_sort_def categorized_of_def categorize_def isBug_def
        isRefactor_def tags_some_def ruleId_in_def arr_includes_def bugTags_def bugRuleIds_def
        refactorTags_def refactorRuleIds_def compareFn_def confidence_or_0_def raw_issue_a_def
        secret_issue_def new_issue_def getBugSeverity_def getRefactorSeverity_def tags_include_def)
  from categorizeMultiple_order [of
        "[raw_issue_a\<lparr>tags := Some [''style''], ruleId := None, confidence := Some (Num 50), message := ''a''\<rparr>,
         raw_issue_a\<lparr>tags := Some [''naming''], ruleId := None, confidence := Some (Num 60), message := ''b''\<rparr>,
         raw_issue_a\<lparr>confidence := Some (Num 70), message := ''c''\<rparr>,
         raw_issue_a\<lparr>tags := Some [''naming''], ruleId := None, confidence := None, message := ''d''\<rparr>,
         raw_issue_a\<lparr>confidence := Some (Num 90), message := ''e''\<rparr>,
         raw_issue_a\<lparr>confidence := Some (Num 70), message := ''f''\<rparr>]"]
  show ?thesis by (simp only: run)
qed


section \<open>Worked scenario A and the pattern-match sub-score\<close>

lemma checkSecurity_line_a:
  "checkSecurity line_a ''javascript'' =
     [secret_issue ''Potential hardcoded API key detected'' ''hardcoded-secrets'']"
  by code_simp

lemma no_console_log_line_a: "\<not> rx_test False re_console_log line_a"
  by code_simp

lemma no_commented_code_line_a: "\<not> rx_test False (re_commented_code ''//'') line_a"
  by code_simp

lemma no_var_line_a: "\<not> rx_test False re_var line_a"
  by code_simp

lemma no_concat_line_a: "\<not> rx_test False re_concat line_a"
  by code_simp

lemma matchRule_line_a: "matchRule line_a r ''javascript'' fi = None"
  using no_console_log_line_a no_commented_code_line_a by (simp add: matchRule_def Let_def)

lemma matchLanguageRule_line_a: "matchLanguageRule line_a r ''javascript'' fi = None"
  using no_var_line_a no_concat_line_a by (simp add: matchLanguageRule_def Let_def)

lemma applyInstructionRules_line_a: "applyInstructionRules line_a rules ''javascript'' fi = []"
  by (auto simp: applyInstructionRules_def matchRule_line_a)

lemma applyLanguageRules_line_a: "applyLanguageRules line_a rules ''javascript'' fi = []"
  by (auto simp: applyLanguageRules_def matchLanguageRule_line_a)

lemma custom_issues_line_a:
  "concat (map (\<lambda>(category, rules). map (f category)
       (applyInstructionRules line_a rules ''javascript'' fi)) g) = []"
  by (auto simp: case_prod_beta applyInstructionRules_line_a)

lemma secret_issue_in_analyzeLine:
  "(secret_issue ''Potential hardcoded API key detected'' ''hardcoded-secrets'')
      \<lparr>tags := tags_or (secret_issue ''Potential hardcoded API key detected'' ''hardcoded-secrets'')
                 [''security''],
       source := Some ''builtin'', matchType := Some ''regex''\<rparr> = raw_issue_a"
  by (simp add: raw_issue_a_def secret_issue_def new_issue_def tags_or_def)

lemma scorePatternMatch_raw_issue_a: "scorePatternMatch raw_issue_a = 15"
  by (simp add: scorePatternMatch_def raw_issue_a_def secret_issue_def new_issue_def)

lemma scoreContext_raw_issue_a: "scoreContext raw_issue_a c = 20"
  by (simp add: scoreContext_def raw_issue_a_def secret_issue_def new_issue_def tags_include_def
      arr_includes_def)

lemma scoreRuleType_raw_issue_a: "scoreRuleType raw_issue_a = 18"
  by (simp add: scoreRuleType_def raw_issue_a_def secret_issue_def new_issue_def tags_include_def
      arr_includes_def)

lemma scoreHistory_raw_issue_a: "scoreHistory new_history (ruleId raw_issue_a) = Num 18"
  by (simp add: scoreHistory_def new_history_def raw_issue_a_def secret_issue_def new_issue_def
      arr_includes_def highAccuracyRules_def)

lemma calculateConfidence_raw_issue_a: "calculateConfidence new_history raw_issue_a c = Num 71"
  by (simp add: calculateConfidence_def Let_def scorePatternMatch_raw_issue_a
      scoreContext_raw_issue_a scoreRuleType_raw_issue_a scoreHistory_raw_issue_a)

lemma categorize_raw_issue_a:
  "categorize raw_issue_a =
     \<lparr>category = ''BUG'', cat_severity = ''critical'', emoji = emoji_red, sortOrder = 1\<rparr>"
  by (simp add: categorize_def isBug_def tags_some_def getBugSeverity_def tags_include_def
      arr_includes_def bugTags_def raw_issue_a_def secret_issue_def new_issue_def)

lemma scorePatternMatch_without_pattern: "\<not> truthy (pattern i) \<Longrightarrow> scorePatternMatch i = 15"
  by (simp add: scorePatternMatch_def)

lemma scorePatternMatch_with_pattern:
  "truthy (pattern i) \<Longrightarrow>
   scorePatternMatch i =
     (if tags_include i ''security'' then 30
      else if matchType i = Some ''exact'' \<or> matchType i = Some ''ast'' then 25
      else if matchType i = Some ''regex'' then 20
      else if matchType i = Some ''keyword'' then 10
      else 15)"
  by (simp add: scorePatternMatch_def)

text \<open>
  Claim C2. The claim gives the pattern-match sub-score as 30 for an issue tagged
  \<open>security\<close>, 25 for the match types \<open>exact\<close> and \<open>ast\<close>, 20 for \<open>regex\<close>, 10 for
  \<open>keyword\<close> and 15 otherwise. \<open>scorePatternMatch\<close> returns 15 before it looks at tags
  or match type whenever the issue has no \<open>pattern\<close> property, and no detector sets
  one: the issue built for a hard-coded secret is tagged \<open>security\<close>, has match type
  \<open>regex\<close>, and scores 15.
\<close>

theorem scorePatternMatch_security_issue:
  "pattern raw_issue_a = None
   \<and> tags_include raw_issue_a ''security''
   \<and> matchType raw_issue_a = Some ''regex''
   \<and> scorePatternMatch raw_issue_a = 15"
  by (simp add: scorePatternMatch_def raw_issue_a_def secret_issue_def new_issue_def
      tags_include_def arr_includes_def)

lemma lang_app_js: "detectLanguage ''src/app.js'' = ''javascript''"
  by code_simp

lemma type_app_js: "detectFileType ''src/app.js'' = ''production''"
  by code_simp

lemma split_line_a: "split_on (CHR 0x0A) line_a = [line_a]"
  by code_simp

text \<open>
  Claim C1. For the changed line \<open>const apiKey = "sk-1234567890abcdef";\<close> of a
  JavaScript file, whatever the rule set and the intent of the file, a fresh analyzer
  produces exactly one comment, with category \<open>BUG\<close>, severity \<open>critical\<close> and the red
  circle. Its confidence is 71, not 86: the context, rule-type and history sub-scores
  are 20, 18 and 18 as the claim says, but the pattern sub-score is 15, because the
  issue has no \<open>pattern\<close> property and \<open>scorePatternMatch\<close> returns before the branch
  that gives security issues 30.
\<close>

theorem analyzeLine_scenario_a:
  "analyzeLine new_history line_a n filename ''javascript'' ins fileIntent =
     [\<lparr>c_path = filename, c_line = n, c_message = ''Potential hardcoded API key detected'',
       c_severity = ''critical'',
       c_suggestion = Some ''Use environment variables or a secure secret management system'',
       c_confidence = Some (Num 71), c_category = Some ''BUG'', c_emoji = Some emoji_red\<rparr>]
   \<and> scorePatternMatch raw_issue_a + scoreContext raw_issue_a c + scoreRuleType raw_issue_a = 15 + 20 + 18
   \<and> scoreHistory new_history (ruleId raw_issue_a) = Num 18"
proof -
  have "analyzeLine new_history line_a n filename ''javascript'' ins fileIntent =
     [\<lparr>c_path = filename, c_line = n, c_message = ''Potential hardcoded API key detected'',
       c_severity = ''critical'',
       c_suggestion = Some ''Use environment variables or a secure secret management system'',
       c_confidence = Some (Num 71), c_category = Some ''BUG'', c_emoji = Some emoji_red\<rparr>]"
    unfolding analyzeLine_def Let_def
    by (simp add: checkSecurity_line_a custom_issues_line_a applyLanguageRules_line_a
        secret_issue_in_analyzeLine calculateConfidence_raw_issue_a categorize_raw_issue_a
        createComment_def)
       (simp add: raw_issue_a_def secret_issue_def new_issue_def)
  then show ?thesis
    by (simp add: scorePatternMatch_raw_issue_a scoreContext_raw_issue_a scoreRuleType_raw_issue_a
        scoreHistory_raw_issue_a)
qed

theorem analyzeFile_scenario_a:
  "detectLanguage ''src/app.js'' = ''javascript''
   \<and> detectFileType ''src/app.js'' = ''production''
   \<and> analyzeFile new_history
         \<lparr>ins_categories =
            [(''Code Quality'',
              [\<lparr>rule_text = ''Remove console.log statements and commented-out code before merging'',
                rule_isPattern = True, rule_severity = ''info''\<rparr>])],
          ins_languageSpecific =
            [(''javascript'',
              [\<lparr>rule_text = ''Avoid var and prefer template literals'', rule_isPattern = False,
                rule_severity = ''warning''\<rparr>])],
          ins_tone = []\<rparr>
         \<lparr>file_filename = ''src/app.js'', file_content = line_a\<rparr> []
       = [\<lparr>c_path = ''src/app.js'', c_line = 1,
            c_message = ''Potential hardcoded API key detected'', c_severity = ''critical'',
            c_suggestion = Some ''Use environment variables or a secure secret management system'',
            c_confidence = Some (Num 71), c_category = Some ''BUG'', c_emoji = Some emoji_red\<rparr>]"
proof -
  have lines: "zip (map int [1..<Suc (length [line_a])]) [line_a] = [(1, line_a)]"
    by simp
  show ?thesis
    unfolding analyzeFile_def Let_def
    using analyzeLine_scenario_a
    by (simp add: lang_app_js type_app_js split_line_a lines)
qed


section \<open>Hard suppression in the rule-driven detector\<close>

lemma startsWith_iff: "startsWith s p \<longleftrightarrow> (\<exists>b. s = p @ b)"
  by (induction s p rule: startsWith.induct) auto

lemma str_includes_iff: "str_includes s p \<longleftrightarrow> (\<exists>a b. s = a @ p @ b)"
proof (induction s)
  case Nil
  then show ?case by auto
next
  case (Cons c cs)
  show ?case
  proof
    assume "str_includes (c # cs) p"
    then consider "startsWith (c # cs) p" | "str_includes cs p" by auto
    then show "\<exists>a b. c # cs = a @ p @ b"
    proof cases
      case 1
      then obtain b where "c # cs = p @ b" unfolding startsWith_iff by blast
      then have "c # cs = [] @ p @ b" by simp
      then show ?thesis by blast
    next
      case 2
      then obtain a b where "cs = a @ p @ b" using Cons.IH by blast
      then have "c # cs = (c # a) @ p @ b" by simp
      then show ?thesis by blast
    qed
  next
    assume "\<exists>a b. c # cs = a @ p @ b"
    then obtain a b where ab: "c # cs = a @ p @ b" by blast
    show "str_includes (c # cs) p"
    proof (cases a)
      case Nil
      with ab have "startsWith (c # cs) p" unfolding startsWith_iff by auto
      then show ?thesis by simp
    next
      case (Cons x xs)
      with ab have "cs = xs @ p @ b" by simp
      then have "str_includes cs p" using Cons.IH by blast
      then show ?thesis by simp
    qed
  qed
qed

lemma lower_console_log: "toLowerCase ''console.log'' = ''console.log''"
  by code_simp

lemma toLowerCase_keeps_console_log:
  assumes "str_includes s ''console.log''"
  shows "str_includes (toLowerCase s) ''console.log''"
proof -
  from assms obtain a b where "s = a @ ''console.log'' @ b" unfolding str_includes_iff by blast
  then have "toLowerCase s = toLowerCase a @ toLowerCase ''console.log'' @ toLowerCase b"
    by (simp add: toLowerCase_def)
  then show ?thesis unfolding str_includes_iff lower_console_log by blast
qed

lemma test_files_allow_console_log: "arr_includes (getAllowedPatterns ''test'') ''console.log''"
  by (simp add: getAllowedPatterns_def lookup_or_def allowances_def arr_includes_def)

text \<open>
  Claim C5, amended (hard suppression). For every rule of a general category whose text
  contains \<open>console.log\<close>, every line and every file that is classified as a test file
  (whose allowed patterns therefore contain \<open>console.log\<close>), the detector for
  general-category rules, \<open>matchRule\<close>, returns no issue, and so \<open>applyInstructionRules\<close>
  emits none for that rule and line, also when the line contains a \<open>console.log\<close> call.
  This holds for every language, JavaScript included. (The detector for the rules of a
  language bucket does not consult the allowed patterns, see the counterexample below.)
\<close>

theorem hard_suppression_in_test_files:
  assumes "str_includes (rule_text r) ''console.log''"
    and "detectFileType filename = ''test''"
  shows "matchRule line r lang (analyzeFileIntent filename content) = None
         \<and> applyInstructionRules line [r] lang (analyzeFileIntent filename content) = []"
proof -
  have allowed: "arr_includes (fi_allowedPatterns (analyzeFileIntent filename content)) ''console.log''"
    using assms(2) test_files_allow_console_log by (simp add: analyzeFileIntent_def Let_def)
  have lower: "str_includes (toLowerCase (rule_text r)) ''console.log''"
    using assms(1) by (rule toLowerCase_keeps_console_log)
  have "matchRule line r lang (analyzeFileIntent filename content) = None"
    unfolding matchRule_def Let_def using allowed lower by simp
  then show ?thesis by (simp add: applyInstructionRules_def)
qed


lemma rule_b_mentions_console_log: "str_includes (rule_text rule_b) ''console.log''"
  by code_simp

lemma foo_test_js_is_test: "detectFileType ''tests/foo.test.js'' = ''test''"
  by code_simp

lemma line_b_has_console_log: "rx_test False re_console_log line_b"
  by code_simp

lemma matchRule_line_b_production:
  "matchRule line_b rule_b ''javascript'' (analyzeFileIntent ''src/foo.js'' line_b) =
     Some (new_issue ''console.log() statement found in production code''
             ''Remove console.log() statements before merging'' ''no-console''
             [''style'', ''production-only''] (Some ''info'') (Some ''regex''))"
  by code_simp

theorem hard_suppression_in_test_files_witness:
  "str_includes (rule_text rule_b) ''console.log''
   \<and> detectFileType ''tests/foo.test.js'' = ''test''
   \<and> rx_test False re_console_log line_b
   \<and> matchRule line_b rule_b ''javascript'' (analyzeFileIntent ''tests/foo.test.js'' line_b) = None
   \<and> applyInstructionRules line_b [rule_b] ''javascript''
         (analyzeFileIntent ''tests/foo.test.js'' line_b) = []
   \<and> matchRule line_b rule_b ''javascript'' (analyzeFileIntent ''src/foo.js'' line_b) =
         Some (new_issue ''console.log() statement found in production code''
                 ''Remove console.log() statements before merging'' ''no-console''
                 [''style'', ''production-only''] (Some ''info'') (Some ''regex''))"
  using hard_suppression_in_test_files [OF rule_b_mentions_console_log foo_test_js_is_test,
      of line_b "''javascript''" line_b]
    rule_b_mentions_console_log foo_test_js_is_test line_b_has_console_log
    matchRule_line_b_production
  by blast

text \<open>
  Claim C5 as stated fails for a rule of the language-specific bucket:
  \<open>matchLanguageRule\<close> never reads the allowed patterns of the file intent. The rule
  text \<open>Remove console.log statements and avoid var\<close> contains \<open>console.log\<close>, the
  file \<open>tests/foo.test.js\<close> is a test file, the line \<open>var x = console.log("x")\<close>
  contains a \<open>console.log\<close> call, and the detector emits a \<open>no-var\<close> issue for it.
\<close>

theorem language_rule_not_suppressed:
  "str_includes (rule_text rule_c) ''console.log''
   \<and> detectFileType ''tests/foo.test.js'' = ''test''
   \<and> detectLanguage ''tests/foo.test.js'' = ''javascript''
   \<and> arr_includes (fi_allowedPatterns (analyzeFileIntent ''tests/foo.test.js'' line_c)) ''console.log''
   \<and> rx_test False re_console_log line_c
   \<and> applyLanguageRules line_c [rule_c] ''javascript''
         (analyzeFileIntent ''tests/foo.test.js'' line_c)
       = [new_issue (''Use of '' @ [CHR 0x22] @ ''var'' @ [CHR 0x22] @ '' detected'')
            ''Use const or let instead of var'' ''no-var'' [''style'', ''modern-syntax'']
            (Some ''warning'') (Some ''regex'')]"
  by code_simp

section \<open>File-type classification\<close>

lemma if_same_merge: "(if a then t else if b then t else r) = (if a \<or> b then t else r)"
  by simp

lemma normalizePath_spec: "normalizePath p = spec_normalize p"
  by (simp add: normalizePath_def spec_normalize_def replace_backslashes_def toLowerCase_def)

lemma detectFileType_first_match: "detectFileType p = spec_classifyFile p"
  unfolding detectFileType_def spec_classifyFile_def file_type_rules_def Let_def normalizePath_spec
    first_match.simps is_test_path_def is_mock_path_def is_config_path_def is_migration_path_def
    is_script_path_def is_types_path_def is_build_path_def
  by (simp only: if_same_merge disj_assoc)

text \<open>
  Claim C7. \<open>detectFileType\<close> normalizes the path (lower case, backslashes to forward
  slashes) and then returns the type of the first predicate that holds in the ordered
  list test, mock/fixture, config, migration, script, types, build, and \<open>production\<close>
  when none holds. In particular a path for which a test predicate holds is classified
  \<open>test\<close> whatever later predicates hold as well.
\<close>

theorem detectFileType_ordered:
  "detectFileType path = first_match file_type_rules (spec_normalize path)
   \<and> (is_test_path (spec_normalize path) \<longrightarrow> detectFileType path = ''test'')"
proof -
  have eq: "detectFileType path = first_match file_type_rules (spec_normalize path)"
    using detectFileType_first_match [of path] by (simp add: spec_classifyFile_def)
  then show ?thesis by (simp add: file_type_rules_def)
qed

lemma normalize_mixed_path:
  "spec_normalize (''Config'' @ [CHR 0x5C] @ ''Foo.Test.JS'') = ''config/foo.test.js''"
  by code_simp

lemma mixed_path_is_test: "is_test_path ''config/foo.test.js''"
  by code_simp

lemma mixed_path_is_config: "is_config_path ''config/foo.test.js''"
  by code_simp

theorem detectFileType_ordered_witness:
  "spec_normalize (''Config'' @ [CHR 0x5C] @ ''Foo.Test.JS'') = ''config/foo.test.js''
   \<and> is_test_path ''config/foo.test.js''
   \<and> is_config_path ''config/foo.test.js''
   \<and> detectFileType (''Config'' @ [CHR 0x5C] @ ''Foo.Test.JS'') = ''test''"
proof -
  from detectFileType_ordered [of "''Config'' @ [CHR 0x5C] @ ''Foo.Test.JS''"]
  have "is_test_path (spec_normalize (''Config'' @ [CHR 0x5C] @ ''Foo.Test.JS''))
        \<longrightarrow> detectFileType (''Config'' @ [CHR 0x5C] @ ''Foo.Test.JS'') = ''test''"
    by (rule conjunct2)
  then have "is_test_path ''config/foo.test.js''
        \<longrightarrow> detectFileType (''Config'' @ [CHR 0x5C] @ ''Foo.Test.JS'') = ''test''"
    by (simp only: normalize_mixed_path)
  then have "detectFileType (''Config'' @ [CHR 0x5C] @ ''Foo.Test.JS'') = ''test''"
    using mixed_path_is_test by (rule mp)
  with normalize_mixed_path mixed_path_is_test mixed_path_is_config show ?thesis
    by (intro conjI)
qed


section \<open>The intent of a pull request\<close>

lemma take1_groups: "t \<in> set (take1 P st) \<Longrightarrow> snd (snd t) = snd (snd st)"
  by (induction P st rule: take1.induct) (auto split: if_splits)

lemma set_group_has: "k \<in> fst ` set (snd (snd (set_group k st t)))"
  by (cases st; cases t) simp

lemma set_group_keeps:
  "j \<in> fst ` set (snd (snd t)) \<Longrightarrow> j \<in> fst ` set (snd (snd (set_group k st t)))"
  by (cases st; cases t) auto

lemma star_ms_keeps_groups:
  assumes f: "\<And>st t. t \<in> set (f st) \<Longrightarrow> k \<in> fst ` set (snd (snd st)) \<Longrightarrow> k \<in> fst ` set (snd (snd t))"
  shows "t \<in> set (star_ms f n st) \<Longrightarrow> k \<in> fst ` set (snd (snd st)) \<Longrightarrow> k \<in> fst ` set (snd (snd t))"
proof (induction n arbitrary: st t)
  case 0
  then show ?case by simp
next
  case (Suc n)
  from Suc.prems(1) consider "t = st" | u where "u \<in> set (f st)" "t \<in> set (star_ms f n u)"
    by auto
  then show ?case
  proof cases
    case 1
    with Suc.prems(2) show ?thesis by simp
  next
    case 2
    from f [OF 2(1) Suc.prems(2)] have "k \<in> fst ` set (snd (snd u))" .
    with Suc.IH [OF 2(2)] show ?thesis .
  qed
qed

lemma rep_ms_keeps_groups:
  assumes f: "\<And>st t. t \<in> set (f st) \<Longrightarrow> k \<in> fst ` set (snd (snd st)) \<Longrightarrow> k \<in> fst ` set (snd (snd t))"
  shows "t \<in> set (rep_ms f n st) \<Longrightarrow> k \<in> fst ` set (snd (snd st)) \<Longrightarrow> k \<in> fst ` set (snd (snd t))"
proof (induction n arbitrary: st t)
  case 0
  then show ?case by simp
next
  case (Suc n)
  from Suc.prems(1) obtain u where u: "u \<in> set (f st)" "t \<in> set (rep_ms f n u)" by auto
  from f [OF u(1) Suc.prems(2)] have "k \<in> fst ` set (snd (snd u))" .
  with Suc.IH [OF u(2)] show ?case .
qed

lemma ms_keeps_groups:
  "t \<in> set (ms r ci st) \<Longrightarrow> k \<in> fst ` set (snd (snd st)) \<Longrightarrow> k \<in> fst ` set (snd (snd t))"
proof (induction r arbitrary: st t)
  case (Lit c)
  then show ?case using take1_groups [of t "chr_eq ci c" st] by simp
next
  case AnyChar
  then show ?case using take1_groups [of t _ st] by simp
next
  case (OneOf cs)
  then show ?case using take1_groups [of t _ st] by simp
next
  case (NoneOf cs)
  then show ?case using take1_groups [of t _ st] by simp
next
  case (Seq a b)
  from Seq.prems(1) obtain u where u: "u \<in> set (ms a ci st)" "t \<in> set (ms b ci u)" by auto
  from Seq.IH(1) [OF u(1) Seq.prems(2)] Seq.IH(2) [OF u(2)] show ?case by blast
next
  case (Alt a b)
  from Alt.prems(1) consider "t \<in> set (ms a ci st)" | "t \<in> set (ms b ci st)" by auto
  then show ?case
  proof cases
    case 1
    then show ?thesis using Alt.prems(2) by (rule Alt.IH(1))
  next
    case 2
    then show ?thesis using Alt.prems(2) by (rule Alt.IH(2))
  qed
next
  case (Opt a)
  from Opt.prems(1) consider "t \<in> set (ms a ci st)" | "t = st" by auto
  then show ?case
  proof cases
    case 1
    then show ?thesis using Opt.prems(2) by (rule Opt.IH)
  next
    case 2
    with Opt.prems(2) show ?thesis by simp
  qed
next
  case (Star a)
  from Star.prems(1) have "t \<in> set (star_ms (ms a ci) (length (st_rest st)) st)" by simp
  then show ?case using Star.prems(2)
    by (rule star_ms_keeps_groups [rotated]) (rule Star.IH)
next
  case (Plus a)
  from Plus.prems(1) obtain u where u: "u \<in> set (ms a ci st)"
      "t \<in> set (star_ms (ms a ci) (length (st_rest u)) u)" by auto
  from Plus.IH [OF u(1) Plus.prems(2)] have "k \<in> fst ` set (snd (snd u))" .
  with u(2) show ?case
    by (rule star_ms_keeps_groups [rotated]) (rule Plus.IH)
next
  case (Rep n a)
  from Rep.prems(1) have "t \<in> set (rep_ms (ms a ci) n st)" by simp
  then show ?case using Rep.prems(2)
    by (rule rep_ms_keeps_groups [rotated]) (rule Rep.IH)
next
  case Bol
  then show ?case by (auto split: if_splits)
next
  case Eol
  then show ?case by (auto split: if_splits)
next
  case WordB
  then show ?case by (auto split: if_splits)
next
  case (Grp j a)
  from Grp.prems(1) obtain u where u: "u \<in> set (ms a ci st)" "t = set_group j st u" by auto
  from Grp.IH [OF u(1) Grp.prems(2)] show ?case unfolding u(2) by (rule set_group_keeps)
next
  case Eps
  then show ?case by simp
qed

lemma scan_result: "scan f p s = Some t \<Longrightarrow> \<exists>p' s'. t \<in> set (f (p', s', []))"
proof (induction s arbitrary: p)
  case Nil
  show ?case
  proof (cases "f (p, [], [])")
    case Nil
    with \<open>scan f p [] = Some t\<close> show ?thesis by simp
  next
    case (Cons u us)
    with \<open>scan f p [] = Some t\<close> have "t = u" by simp
    with Cons have "t \<in> set (f (p, [], []))" by simp
    then show ?thesis by blast
  qed
next
  case (Cons c cs)
  show ?case
  proof (cases "f (p, c # cs, [])")
    case Nil
    with Cons.prems have "scan f (Some c) cs = Some t" by simp
    then show ?thesis by (rule Cons.IH)
  next
    case (Cons u us)
    with Cons.prems have "t = u" by simp
    with Cons have "t \<in> set (f (p, c # cs, []))" by simp
    then show ?thesis by blast
  qed
qed

lemma ms_Seq_elem:
  "t \<in> set (ms (Seq a b) ci st) \<Longrightarrow> \<exists>u\<in>set (ms a ci st). t \<in> set (ms b ci u)"
  by auto

lemma ms_Grp_elem: "v \<in> set (ms (Grp k a) ci st) \<Longrightarrow> k \<in> fst ` set (snd (snd v))"
proof -
  assume "v \<in> set (ms (Grp k a) ci st)"
  then obtain w where "v = set_group k st w" by auto
  then show ?thesis by (simp add: set_group_has)
qed

lemma title_match_has_type:
  assumes "rx_exec ci re_title s = Some t"
  shows "group t 1 \<noteq> None"
proof -
  from assms obtain p' s' where t: "t \<in> set (ms re_title ci (p', s', []))"
    unfolding rx_exec_def using scan_result by blast
  obtain X R where re: "re_title = Seq Bol (Seq (Grp 1 X) R)"
    by (simp add: re_title_def rx_seq_def)
  from t have "t \<in> set (ms (Seq Bol (Seq (Grp 1 X) R)) ci (p', s', []))"
    by (simp only: re)
  then obtain u where "u \<in> set (ms Bol ci (p', s', []))"
    and tu: "t \<in> set (ms (Seq (Grp 1 X) R) ci u)"
    using ms_Seq_elem by blast
  from tu obtain v where v: "v \<in> set (ms (Grp 1 X) ci u)" and tv: "t \<in> set (ms R ci v)"
    using ms_Seq_elem by blast
  from v have "1 \<in> fst ` set (snd (snd v))" by (rule ms_Grp_elem)
  with tv have "1 \<in> fst ` set (snd (snd t))" by (rule ms_keeps_groups)
  then show ?thesis unfolding group_def by (simp add: map_of_eq_None_iff)
qed

lemma parse_title_total: "\<exists>i. parse_title s = Inr i"
proof (cases "rx_exec True re_title s")
  case None
  then show ?thesis by (simp add: parse_title_def)
next
  case (Some t)
  with title_match_has_type [OF Some] obtain ty where "group t 1 = Some ty" by auto
  with Some show ?thesis by (simp add: parse_title_def)
qed

lemma parse_title_unrecognized:
  "rx_exec True re_title s = None \<Longrightarrow> parse_title s = Inr (default_intent s)"
  by (simp add: parse_title_def)

lemma apply_label_named:
  "named_label l \<Longrightarrow> \<exists>i'. apply_label i l = Inr i' \<and> pi_type i' = pi_type i"
  by (cases "label_name l") (auto simp: named_label_def apply_label_def Let_def)

lemma apply_label_unknown: "unknown_label l \<Longrightarrow> apply_label i l = Inr i"
  by (cases "label_name l")
     (auto simp: unknown_label_def apply_label_def Let_def label_keywords_def)

lemma apply_labels_named:
  "list_all named_label ls \<Longrightarrow> \<exists>i'. apply_labels i ls = Inr i' \<and> pi_type i' = pi_type i"
proof (induction ls arbitrary: i)
  case Nil
  then show ?case by simp
next
  case (Cons l ls)
  from Cons.prems have "named_label l" and rest: "list_all named_label ls" by simp_all
  from apply_label_named [OF this(1), of i] obtain j where j: "apply_label i l = Inr j"
      "pi_type j = pi_type i" by blast
  from Cons.IH [OF rest, of j] obtain i' where "apply_labels j ls = Inr i'" "pi_type i' = pi_type j"
    by blast
  with j show ?case by simp
qed

lemma apply_labels_unknown: "list_all unknown_label ls \<Longrightarrow> apply_labels i ls = Inr i"
  by (induction ls) (simp_all add: apply_label_unknown)

text \<open>
  Claim C8, amended. For every title, every body and every list of labels in which each
  entry is a string or an object that has a name, \<open>analyzePRIntent\<close> returns an intent
  and does not throw. When the title does not follow the \<open>type(scope): description\<close>
  grammar the type is \<open>general\<close>; when in addition no label contains one of the words
  the label loop looks for, the result is the default intent, with type \<open>general\<close> and
  strictness \<open>normal\<close>. (A label object without a name makes the function throw, see
  the counterexample below.)
\<close>

theorem analyzePRIntent_named_labels:
  assumes "list_all named_label labels"
  shows "\<exists>i. analyzePRIntent prTitle prBody labels = Inr i
           \<and> (rx_exec True re_title prTitle = None \<longrightarrow> pi_type i = ''general'')
           \<and> (rx_exec True re_title prTitle = None \<and> list_all unknown_label labels
                \<longrightarrow> i = default_intent prTitle
                    \<and> pi_type i = ''general'' \<and> pi_strictness i = ''normal'')"
proof -
  obtain j where j: "parse_title prTitle = Inr j" using parse_title_total by blast
  from apply_labels_named [OF assms, of j] obtain i where i: "apply_labels j labels = Inr i"
      "pi_type i = pi_type j" by blast
  have res: "analyzePRIntent prTitle prBody labels = Inr i"
    using j i(1) by (simp add: analyzePRIntent_def)
  have gen: "pi_type i = ''general''" if "rx_exec True re_title prTitle = None"
    using parse_title_unrecognized [OF that] j i(2) by (simp add: default_intent_def)
  have dflt: "i = default_intent prTitle"
    if "rx_exec True re_title prTitle = None" and "list_all unknown_label labels"
    using parse_title_unrecognized [OF that(1)] apply_labels_unknown [OF that(2), of j] j i(1)
    by simp
  have "pi_strictness (default_intent prTitle) = ''normal''" by (simp add: default_intent_def)
  with res gen dflt show ?thesis by auto
qed

lemma plain_title_unrecognized: "rx_exec True re_title ''Update readme'' = None"
  by code_simp

lemma plain_labels_named:
  "list_all named_label [LabelString ''enhancement'', LabelObject (Some ''Needs-Review'')]"
  by code_simp

lemma plain_labels_unknown:
  "list_all unknown_label [LabelString ''enhancement'', LabelObject (Some ''Needs-Review'')]"
  by code_simp

lemma conventional_title_run:
  "analyzePRIntent ''Feat(api): add login'' [] [LabelObject (Some ''Security'')] =
     Inr \<lparr>pi_type = ''feat'', pi_scope = Some ''api'', pi_description = Some ''add login'',
          pi_expectTests = True, pi_expectDocs = True, pi_allowLargeDiffs = False,
          pi_expectBenchmarks = False, pi_skipCodeChecks = False,
          pi_focusAreas = [''functionality'', ''edge-cases'', ''error-handling'', ''security''],
          pi_strictness = ''strict'', pi_requireMigrationGuide = False, pi_isUrgent = False,
          pi_isDraft = False\<rparr>"
  by code_simp

theorem analyzePRIntent_named_labels_witness:
  "list_all named_label [LabelString ''enhancement'', LabelObject (Some ''Needs-Review'')]
   \<and> rx_exec True re_title ''Update readme'' = None
   \<and> list_all unknown_label [LabelString ''enhancement'', LabelObject (Some ''Needs-Review'')]
   \<and> analyzePRIntent ''Update readme'' ''Fixes a typo''
         [LabelString ''enhancement'', LabelObject (Some ''Needs-Review'')]
       = Inr (default_intent ''Update readme'')
   \<and> pi_type (default_intent ''Update readme'') = ''general''
   \<and> pi_strictness (default_intent ''Update readme'') = ''normal''"
  using analyzePRIntent_named_labels [OF plain_labels_named, of "''Update readme''" "''Fixes a typo''"]
    plain_title_unrecognized plain_labels_named plain_labels_unknown
  by auto

text \<open>
  Claim C8 as stated fails: a label object without a \<open>name\<close> (the label list \<open>[{}]\<close>)
  makes \<open>labelName.toLowerCase()\<close> throw a \<open>TypeError\<close>, also for a title that does not
  follow the grammar.
\<close>

theorem analyzePRIntent_nameless_label_throws:
  "analyzePRIntent ''Update readme'' [] [LabelObject None] = Inl TypeError"
  by code_simp

section \<open>The body of a posted comment\<close>

lemma formatCommentBody_layout:
  assumes "c_emoji c = Some em" "em \<noteq> []" "c_category c = Some cat" "cat \<noteq> []"
    and "c_confidence c = Some conf"
  shows "formatCommentBody c =
     em @ '' **'' @ cat @ ''** ''
     @ (if num_ge conf 90 then gh_conf_90 else if num_ge conf 75 then gh_conf_75
        else if num_ge conf 60 then gh_conf_60 else gh_conf_low)
     @ '' (Confidence: '' @ show_num conf @ ''%)'' @ [CHR 0x0A, CHR 0x0A] @ c_message c @ [CHR 0x0A]
     @ (case c_suggestion c of
          None \<Rightarrow> []
        | Some s \<Rightarrow> if s = [] then [] else [CHR 0x0A] @ gh_suggestion_mark @ '' **Suggestion**: '' @ s)"
  using assms by (simp add: formatCommentBody_def or_default_def Let_def split: option.splits)

lemma finding_a_body_bytes:
  "formatCommentBody finding_a =
     emoji_red @ '' **BUG** '' @ gh_conf_60 @ '' (Confidence: 71%)'' @ [CHR 0x0A, CHR 0x0A]
     @ ''Potential hardcoded API key detected'' @ [CHR 0x0A, CHR 0x0A] @ gh_suggestion_mark
     @ '' **Suggestion**: Use environment variables or a secure secret management system''"
  by code_simp

lemma finding_a_body_differs:
  "formatCommentBody finding_a \<noteq>
     spec_display_body emoji_red ''BUG'' (Num 71) ''Potential hardcoded API key detected''
       (Some ''Use environment variables or a secure secret management system'')"
  by code_simp

lemma garbled_markers:
  "gh_conf_90 \<noteq> emoji_target \<and> gh_conf_75 \<noteq> emoji_check \<and> gh_conf_60 \<noteq> emoji_warning
   \<and> gh_conf_low \<noteq> emoji_question \<and> gh_suggestion_mark \<noteq> emoji_bulb"
  by code_simp

text \<open>
  Claim C9. The body is laid out as the claim says (emoji, category in bold, confidence
  marker, confidence in percent, blank line, message, and the suggestion paragraph when
  the comment has a non-empty suggestion), with the thresholds 90, 75 and 60. The
  confidence markers and the marker before the suggestion are not the emoji the claim
  names: the string literals of \<open>formatCommentBody\<close> in \<open>github-service.js\<close> hold the
  mis-decoded bytes of these emoji. For the finding of worked scenario A the body
  differs from the one the specification gives, at the confidence marker and at the
  suggestion marker.
\<close>

theorem formatCommentBody_finding_a:
  "formatCommentBody finding_a =
     emoji_red @ '' **BUG** '' @ gh_conf_60 @ '' (Confidence: 71%)'' @ [CHR 0x0A, CHR 0x0A]
     @ ''Potential hardcoded API key detected'' @ [CHR 0x0A, CHR 0x0A] @ gh_suggestion_mark
     @ '' **Suggestion**: Use environment variables or a secure secret management system''
   \<and> gh_conf_60 \<noteq> emoji_warning
   \<and> gh_suggestion_mark \<noteq> emoji_bulb
   \<and> formatCommentBody finding_a \<noteq>
        spec_display_body emoji_red ''BUG'' (Num 71) ''Potential hardcoded API key detected''
          (Some ''Use environment variables or a secure secret management system'')"
  using finding_a_body_bytes finding_a_body_differs garbled_markers
  by blast

end
